theory Spec2Isabelle
  imports Main
begin

section \<open>Solidity basics: addresses, checked 256-bit arithmetic, reverts\<close>

text \<open>
  The contracts are compiled with Solidity 0.8.28: every \<open>uint256\<close> addition,
  subtraction, multiplication and increment is checked and aborts the transaction with a
  panic when the result leaves \<open>0 .. 2^256 - 1\<close>. A \<open>uint256\<close> is modelled as a
  \<open>nat\<close> and every arithmetic operation of the source goes through \<open>checked_add\<close>,
  \<open>checked_sub\<close> or \<open>checked_mul\<close>. A failing \<open>require\<close> is the value
  \<open>Inl (Revert msg)\<close> with the message of the source. An address is a \<open>nat\<close>;
  \<open>address(0)\<close> is \<open>0\<close>. A Solidity mapping is a total function whose default value is
  the zero value of its range.
\<close>

type_synonym address = nat

datatype error = Panic | Revert string

definition MAX_UINT256 :: nat where
  "MAX_UINT256 = 2 ^ 256 - 1"

definition checked_add :: "nat \<Rightarrow> nat \<Rightarrow> error + nat" where
  "checked_add a b = (if a + b \<le> MAX_UINT256 then Inr (a + b) else Inl Panic)"

definition checked_sub :: "nat \<Rightarrow> nat \<Rightarrow> error + nat" where
  "checked_sub a b = (if b \<le> a then Inr (a - b) else Inl Panic)"

definition checked_mul :: "nat \<Rightarrow> nat \<Rightarrow> error + nat" where
  "checked_mul a b = (if a * b \<le> MAX_UINT256 then Inr (a * b) else Inl Panic)"

text \<open>Sequencing of fallible steps: the first error aborts the rest.\<close>

definition rbind :: "error + 'a \<Rightarrow> ('a \<Rightarrow> error + 'b) \<Rightarrow> error + 'b" where
  "rbind m f = (case m of Inl e \<Rightarrow> Inl e | Inr x \<Rightarrow> f x)"

section \<open>CreditRegistry\<close>

definition BASE_CREDIT_SCORE :: nat where "BASE_CREDIT_SCORE = 300"
definition MAX_CREDIT_SCORE :: nat where "MAX_CREDIT_SCORE = 1000"
definition MIN_CREDIT_SCORE :: nat where "MIN_CREDIT_SCORE = 0"
definition ON_TIME_PAYMENT_BONUS :: nat where "ON_TIME_PAYMENT_BONUS = 10"
definition LATE_PAYMENT_PENALTY :: nat where "LATE_PAYMENT_PENALTY = 20"
definition DEFAULT_PENALTY :: nat where "DEFAULT_PENALTY = 100"
definition CIRCLE_COMPLETION_BONUS :: nat where "CIRCLE_COMPLETION_BONUS = 15"

record CreditProfile =
  creditScore :: nat
  circlesJoined :: nat
  circlesCompleted :: nat
  onTimePayments :: nat
  latePayments :: nat
  defaults :: nat
  hasDefaulted :: bool

record CreditRegistry =
  creditProfiles :: "address \<Rightarrow> CreditProfile"
  hasProfile :: "address \<Rightarrow> bool"

text \<open>The zero value of a profile slot, and the registry right after deployment.\<close>

definition zeroProfile :: CreditProfile where
  "zeroProfile = \<lparr>creditScore = 0, circlesJoined = 0, circlesCompleted = 0,
     onTimePayments = 0, latePayments = 0, defaults = 0, hasDefaulted = False\<rparr>"

definition CreditRegistry_deployed :: CreditRegistry where
  "CreditRegistry_deployed = \<lparr>creditProfiles = (\<lambda>_. zeroProfile), hasProfile = (\<lambda>_. False)\<rparr>"

definition getCreditScore :: "CreditRegistry \<Rightarrow> address \<Rightarrow> nat" where
  "getCreditScore r a =
     (if \<not> hasProfile r a then BASE_CREDIT_SCORE else creditScore (creditProfiles r a))"

text \<open>\<open>_ensureProfile\<close> of the source (an Isabelle name cannot start with an underscore).\<close>

definition ensureProfile :: "CreditRegistry \<Rightarrow> address \<Rightarrow> CreditRegistry" where
  "ensureProfile r a =
     (if \<not> hasProfile r a
      then r\<lparr>creditProfiles := (creditProfiles r)(a := \<lparr>creditScore = BASE_CREDIT_SCORE,
                 circlesJoined = 0, circlesCompleted = 0, onTimePayments = 0,
                 latePayments = 0, defaults = 0, hasDefaulted = False\<rparr>),
             hasProfile := (hasProfile r)(a := True)\<rparr>
      else r)"

definition recordOnTimePayment :: "CreditRegistry \<Rightarrow> address \<Rightarrow> error + CreditRegistry" where
  "recordOnTimePayment r0 a =
     (let r = ensureProfile r0 a;
          p = creditProfiles r a;
          previousScore = creditScore p
      in rbind (checked_add (onTimePayments p) 1) (\<lambda>cnt.
         rbind (checked_add previousScore ON_TIME_PAYMENT_BONUS) (\<lambda>sum.
           let newScore = (if sum > MAX_CREDIT_SCORE then MAX_CREDIT_SCORE else sum)
           in Inr (r\<lparr>creditProfiles := (creditProfiles r)
                       (a := p\<lparr>onTimePayments := cnt, creditScore := newScore\<rparr>)\<rparr>))))"

definition recordLatePayment :: "CreditRegistry \<Rightarrow> address \<Rightarrow> error + CreditRegistry" where
  "recordLatePayment r0 a =
     (let r = ensureProfile r0 a;
          p = creditProfiles r a;
          previousScore = creditScore p
      in rbind (checked_add (latePayments p) 1) (\<lambda>cnt.
         rbind (if previousScore \<ge> LATE_PAYMENT_PENALTY
                then checked_sub previousScore LATE_PAYMENT_PENALTY
                else Inr MIN_CREDIT_SCORE) (\<lambda>newScore.
           Inr (r\<lparr>creditProfiles := (creditProfiles r)
                    (a := p\<lparr>latePayments := cnt, creditScore := newScore\<rparr>)\<rparr>))))"

definition recordDefault :: "CreditRegistry \<Rightarrow> address \<Rightarrow> error + CreditRegistry" where
  "recordDefault r0 a =
     (let r = ensureProfile r0 a;
          p = creditProfiles r a;
          previousScore = creditScore p
      in rbind (checked_add (defaults p) 1) (\<lambda>cnt.
         rbind (if previousScore \<ge> DEFAULT_PENALTY
                then checked_sub previousScore DEFAULT_PENALTY
                else Inr MIN_CREDIT_SCORE) (\<lambda>newScore.
           Inr (r\<lparr>creditProfiles := (creditProfiles r)
                    (a := p\<lparr>defaults := cnt, hasDefaulted := True,
                            creditScore := newScore\<rparr>)\<rparr>))))"

definition recordCircleCompletion :: "CreditRegistry \<Rightarrow> address \<Rightarrow> error + CreditRegistry" where
  "recordCircleCompletion r0 a =
     (let r = ensureProfile r0 a;
          p = creditProfiles r a;
          previousScore = creditScore p
      in rbind (checked_add (circlesCompleted p) 1) (\<lambda>cnt.
         rbind (checked_add previousScore CIRCLE_COMPLETION_BONUS) (\<lambda>sum.
           let newScore = (if sum > MAX_CREDIT_SCORE then MAX_CREDIT_SCORE else sum)
           in Inr (r\<lparr>creditProfiles := (creditProfiles r)
                       (a := p\<lparr>circlesCompleted := cnt, creditScore := newScore\<rparr>)\<rparr>))))"

definition recordCircleJoin :: "CreditRegistry \<Rightarrow> address \<Rightarrow> error + CreditRegistry" where
  "recordCircleJoin r0 a =
     (let r = ensureProfile r0 a;
          p = creditProfiles r a
      in rbind (checked_add (circlesJoined p) 1) (\<lambda>cnt.
           Inr (r\<lparr>creditProfiles := (creditProfiles r)(a := p\<lparr>circlesJoined := cnt\<rparr>)\<rparr>)))"

text \<open>
  The registry has no access control: any account may send any of the five recording
  transactions for any address. A transaction that aborts leaves the registry as it was.
\<close>

datatype ledger_op =
    OnTimePayment address
  | LatePayment address
  | DefaultOn address
  | CircleCompletion address
  | CircleJoin address

fun ledger_call :: "ledger_op \<Rightarrow> CreditRegistry \<Rightarrow> error + CreditRegistry" where
  "ledger_call (OnTimePayment a) r = recordOnTimePayment r a"
| "ledger_call (LatePayment a) r = recordLatePayment r a"
| "ledger_call (DefaultOn a) r = recordDefault r a"
| "ledger_call (CircleCompletion a) r = recordCircleCompletion r a"
| "ledger_call (CircleJoin a) r = recordCircleJoin r a"

definition ledger_tx :: "ledger_op \<Rightarrow> CreditRegistry \<Rightarrow> CreditRegistry" where
  "ledger_tx op r = (case ledger_call op r of Inl _ \<Rightarrow> r | Inr r' \<Rightarrow> r')"

fun ledger_run :: "ledger_op list \<Rightarrow> CreditRegistry \<Rightarrow> CreditRegistry" where
  "ledger_run [] r = r"
| "ledger_run (op # ops) r = ledger_run ops (ledger_tx op r)"



section \<open>The transaction environment\<close>

text \<open>
  What a call sees of its transaction: the caller, the attached value and the block time.
  \<open>call_success\<close> is the outcome of the one low-level value call
  \<open>recipient.call{value: amount}("")\<close> that the transaction may make to an account outside
  the three contracts; that account is taken not to call back into them.
\<close>

record Env =
  msg_sender :: address
  msg_value :: nat
  block_timestamp :: nat
  call_success :: bool

section \<open>ReservePool\<close>

record ReservePool =
  factory :: address
  verifiedCircles :: "address \<Rightarrow> bool"
  totalDeposited :: nat
  totalWithdrawn :: nat
  currentBalance :: nat

definition ReservePool_constructor :: "address \<Rightarrow> ReservePool" where
  "ReservePool_constructor sender =
     \<lparr>factory = sender, verifiedCircles = (\<lambda>_. False),
      totalDeposited = 0, totalWithdrawn = 0, currentBalance = 0\<rparr>"

definition verifyCircle :: "address \<Rightarrow> address \<Rightarrow> ReservePool \<Rightarrow> error + ReservePool" where
  "verifyCircle sender circ p =
     (if sender \<noteq> factory p then Inl (Revert ''ReservePool: Only factory can call'')
      else if circ = 0 then Inl (Revert ''ReservePool: Invalid circle address'')
      else Inr (p\<lparr>verifiedCircles := (verifiedCircles p)(circ := True)\<rparr>))"

definition revokeCircle :: "address \<Rightarrow> address \<Rightarrow> ReservePool \<Rightarrow> error + ReservePool" where
  "revokeCircle sender circ p =
     (if sender \<noteq> factory p then Inl (Revert ''ReservePool: Only factory can call'')
      else Inr (p\<lparr>verifiedCircles := (verifiedCircles p)(circ := False)\<rparr>))"

definition deposit :: "address \<Rightarrow> nat \<Rightarrow> ReservePool \<Rightarrow> error + ReservePool" where
  "deposit sender amount p =
     (if \<not> verifiedCircles p sender
      then Inl (Revert ''ReservePool: Only verified circles can withdraw'')
      else if \<not> amount > 0
      then Inl (Revert ''ReservePool: Deposit amount must be greater than 0'')
      else rbind (checked_add (totalDeposited p) amount) (\<lambda>td.
           rbind (checked_add (currentBalance p) amount) (\<lambda>cb.
             Inr (p\<lparr>totalDeposited := td, currentBalance := cb\<rparr>))))"

text \<open>
  \<open>success\<close> is the result of \<open>recipient.call{value: amount}("")\<close>.
\<close>

definition withdraw ::
  "address \<Rightarrow> nat \<Rightarrow> address \<Rightarrow> bool \<Rightarrow> ReservePool \<Rightarrow> error + ReservePool" where
  "withdraw sender amount recipient success p =
     (if \<not> verifiedCircles p sender
      then Inl (Revert ''ReservePool: Only verified circles can withdraw'')
      else if \<not> amount > 0
      then Inl (Revert ''ReservePool: Withdrawal amount must be greater than 0'')
      else if recipient = 0
      then Inl (Revert ''ReservePool: Invalid recipient address'')
      else if \<not> currentBalance p \<ge> amount
      then Inl (Revert ''ReservePool: Insufficient balance'')
      else rbind (checked_sub (currentBalance p) amount) (\<lambda>cb.
           rbind (checked_add (totalWithdrawn p) amount) (\<lambda>tw.
             if \<not> success then Inl (Revert ''ReservePool: Transfer failed'')
             else Inr (p\<lparr>currentBalance := cb, totalWithdrawn := tw\<rparr>))))"

definition getUtilizationRate :: "ReservePool \<Rightarrow> error + nat" where
  "getUtilizationRate p =
     (if totalDeposited p = 0 then Inr 0
      else rbind (checked_mul (totalWithdrawn p) 10000) (\<lambda>x. Inr (x div totalDeposited p)))"

text \<open>The \<open>receive()\<close> function of the pool: a plain transfer of value to it.\<close>

definition ReservePool_receive :: "address \<Rightarrow> nat \<Rightarrow> ReservePool \<Rightarrow> error + ReservePool" where
  "ReservePool_receive sender amount p =
     (if \<not> verifiedCircles p sender
      then Inl (Revert ''ReservePool: Only verified circles can deposit'')
      else rbind (checked_add (totalDeposited p) amount) (\<lambda>td.
           rbind (checked_add (currentBalance p) amount) (\<lambda>cb.
             Inr (p\<lparr>totalDeposited := td, currentBalance := cb\<rparr>))))"

datatype pool_op =
    VerifyCircle address
  | RevokeCircle address
  | Deposit
  | Withdraw nat address
  | DirectReceive

text \<open>
  The pool's dispatcher. \<open>deposit\<close> and \<open>receive\<close> are payable; a call of any other
  function with value attached is rejected before its body runs.
\<close>

fun pool_call :: "Env \<Rightarrow> pool_op \<Rightarrow> ReservePool \<Rightarrow> error + ReservePool" where
  "pool_call env (VerifyCircle c) p =
     (if msg_value env \<noteq> 0 then Inl (Revert []) else verifyCircle (msg_sender env) c p)"
| "pool_call env (RevokeCircle c) p =
     (if msg_value env \<noteq> 0 then Inl (Revert []) else revokeCircle (msg_sender env) c p)"
| "pool_call env Deposit p = deposit (msg_sender env) (msg_value env) p"
| "pool_call env (Withdraw amount recipient) p =
     (if msg_value env \<noteq> 0 then Inl (Revert [])
      else withdraw (msg_sender env) amount recipient (call_success env) p)"
| "pool_call env DirectReceive p = ReservePool_receive (msg_sender env) (msg_value env) p"

definition pool_tx :: "Env \<times> pool_op \<Rightarrow> ReservePool \<Rightarrow> ReservePool" where
  "pool_tx t p = (case pool_call (fst t) (snd t) p of Inl _ \<Rightarrow> p | Inr p' \<Rightarrow> p')"

fun pool_run :: "(Env \<times> pool_op) list \<Rightarrow> ReservePool \<Rightarrow> ReservePool" where
  "pool_run [] p = p"
| "pool_run (t # ts) p = pool_run ts (pool_tx t p)"



section \<open>LendingCircle: state\<close>

datatype CircleStatus = PENDING | ACTIVE | COMPLETED | CANCELLED

datatype ExcessDistributionMethod = WITHDRAWABLE | AUTO_DEDUCT

definition MAX_CONTRIBUTION_PER_CREDIT :: nat where
  "MAX_CONTRIBUTION_PER_CREDIT = 1000000000000000000"

definition MAX_PARTICIPANTS_PER_CREDIT :: nat where
  "MAX_PARTICIPANTS_PER_CREDIT = 1"

definition MAX_EXPOSURE_PER_CREDIT :: nat where
  "MAX_EXPOSURE_PER_CREDIT = 10000000000000000000"

record Participant =
  participant :: address
  isActive :: bool
  hasReceivedPayout :: bool
  isInDefault :: bool
  withdrawableBalance :: nat
  monthlyPayments :: "nat \<Rightarrow> bool"
  paymentTimestamp :: "nat \<Rightarrow> nat"

record Vote =
  voter :: address
  candidate :: address
  weight :: nat
  hasVoted :: bool

record Candidate =
  candidate :: address
  proposer :: address
  totalVotes :: nat
  isActive :: bool

record PayoutProposal =
  endTime :: nat
  executed :: bool
  winner :: address
  candidates :: "address \<Rightarrow> Candidate"
  candidateList :: "address list"
  votes :: "address \<Rightarrow> Vote"
  voters :: "address list"

text \<open>
  The fields of the contract. \<open>creditRegistry\<close> and \<open>reservePool\<close> are the addresses
  of the two other contracts; \<open>locked\<close> is \<open>_locked\<close>.
\<close>

record LendingCircle =
  creator :: address
  coordinator :: address
  monthlyContribution :: nat
  durationInMonths :: nat
  minParticipants :: nat
  maxParticipants :: nat
  reservePercentage :: nat
  excessDistributionMethod :: ExcessDistributionMethod
  status :: CircleStatus
  currentMonth :: nat
  totalParticipants :: nat
  poolBalance :: nat
  totalReserveDeposited :: nat
  creditRegistry :: address
  reservePool :: address
  participants :: "address \<Rightarrow> Participant"
  participantList :: "address list"
  payoutProposals :: "nat \<Rightarrow> PayoutProposal"
  votingPeriod :: nat
  locked :: bool

text \<open>
  One circle together with the registry and the pool it talks to. \<open>circleAddress\<close> is
  \<open>address(this)\<close> of the circle. \<open>sent\<close> lists, oldest first, the value transfers
  \<open>(from, to, amount)\<close> made by the low-level calls of the circle and of the pool.
\<close>

record World =
  registry :: CreditRegistry
  reserve :: ReservePool
  circle :: LendingCircle
  circleAddress :: address
  sent :: "(address \<times> address \<times> nat) list"

definition zeroParticipant :: Participant where
  "zeroParticipant = \<lparr>participant = 0, Participant.isActive = False, hasReceivedPayout = False,
     isInDefault = False, withdrawableBalance = 0, monthlyPayments = (\<lambda>_. False),
     paymentTimestamp = (\<lambda>_. 0)\<rparr>"

definition zeroVote :: Vote where
  "zeroVote = \<lparr>voter = 0, Vote.candidate = 0, weight = 0, hasVoted = False\<rparr>"

definition zeroCandidate :: Candidate where
  "zeroCandidate = \<lparr>Candidate.candidate = 0, proposer = 0, totalVotes = 0,
     Candidate.isActive = False\<rparr>"

definition zeroProposal :: PayoutProposal where
  "zeroProposal = \<lparr>endTime = 0, executed = False, winner = 0, candidates = (\<lambda>_. zeroCandidate),
     candidateList = [], votes = (\<lambda>_. zeroVote), voters = []\<rparr>"

section \<open>LendingCircle: modifiers and internal functions\<close>

definition onlyCoordinator :: "Env \<Rightarrow> World \<Rightarrow> error + World \<Rightarrow> error + World" where
  "onlyCoordinator env w body =
     (if msg_sender env \<noteq> coordinator (circle w)
      then Inl (Revert ''LendingCircle: Only coordinator can call'')
      else body)"

definition onlyActiveParticipant :: "Env \<Rightarrow> World \<Rightarrow> error + World \<Rightarrow> error + World" where
  "onlyActiveParticipant env w body =
     (if \<not> (Participant.isActive (participants (circle w) (msg_sender env)) \<and>
             \<not> isInDefault (participants (circle w) (msg_sender env)))
      then Inl (Revert ''LendingCircle: Only active participants can call'')
      else body)"

definition onlyActiveCircle :: "World \<Rightarrow> error + World \<Rightarrow> error + World" where
  "onlyActiveCircle w body =
     (if status (circle w) \<noteq> ACTIVE
      then Inl (Revert ''LendingCircle: Circle must be active'')
      else body)"

definition nonReentrant :: "(World \<Rightarrow> error + World) \<Rightarrow> World \<Rightarrow> error + World" where
  "nonReentrant body w =
     (if locked (circle w) then Inl (Revert ''LendingCircle: Reentrant call'')
      else rbind (body (w\<lparr>circle := (circle w)\<lparr>locked := True\<rparr>\<rparr>)) (\<lambda>w'.
             Inr (w'\<lparr>circle := (circle w')\<lparr>locked := False\<rparr>\<rparr>)))"

text \<open>
  \<open>_getActiveParticipantCount\<close>: the loop over \<open>participantList\<close>. The counter cannot
  overflow, it is bounded by the length of the array.
\<close>

fun activeCountLoop :: "(address \<Rightarrow> Participant) \<Rightarrow> address list \<Rightarrow> nat \<Rightarrow> nat" where
  "activeCountLoop ps [] count = count"
| "activeCountLoop ps (a # rest) count =
     activeCountLoop ps rest
       (if Participant.isActive (ps a) \<and> \<not> isInDefault (ps a) then count + 1 else count)"

definition getActiveParticipantCount :: "LendingCircle \<Rightarrow> nat" where
  "getActiveParticipantCount c = activeCountLoop (participants c) (participantList c) 0"

text \<open>
  \<open>_selectWinner\<close>: the scan of \<open>candidateList\<close>, carrying
  \<open>(bestCandidate, bestVotes, bestCredit)\<close>.
\<close>

fun selectLoop ::
  "CreditRegistry \<Rightarrow> LendingCircle \<Rightarrow> nat \<Rightarrow> address list \<Rightarrow> address \<times> nat \<times> nat
     \<Rightarrow> address \<times> nat \<times> nat" where
  "selectLoop r c month [] best = best"
| "selectLoop r c month (cd # rest) (bestCandidate, bestVotes, bestCredit) =
     (let cand = candidates (payoutProposals c month) cd in
      if \<not> Candidate.isActive cand then
        selectLoop r c month rest (bestCandidate, bestVotes, bestCredit)
      else if hasReceivedPayout (participants c cd) then
        selectLoop r c month rest (bestCandidate, bestVotes, bestCredit)
      else if isInDefault (participants c cd) then
        selectLoop r c month rest (bestCandidate, bestVotes, bestCredit)
      else
        let candidateVotes = totalVotes cand;
            candidateCredit = getCreditScore r cd
        in if candidateVotes > bestVotes \<or>
              (candidateVotes = bestVotes \<and> candidateCredit > bestCredit)
           then selectLoop r c month rest (cd, candidateVotes, candidateCredit)
           else selectLoop r c month rest (bestCandidate, bestVotes, bestCredit))"

definition selectWinner :: "CreditRegistry \<Rightarrow> LendingCircle \<Rightarrow> nat \<Rightarrow> address" where
  "selectWinner r c month =
     (if length (candidateList (payoutProposals c month)) = 0 then 0
      else fst (selectLoop r c month (candidateList (payoutProposals c month)) (0, 0, 0)))"

definition activateCircle :: "LendingCircle \<Rightarrow> error + LendingCircle" where
  "activateCircle c =
     (if \<not> totalParticipants c \<ge> minParticipants c
      then Inl (Revert ''LendingCircle: Not enough participants'')
      else Inr (c\<lparr>status := ACTIVE\<rparr>))"

fun completionLoop ::
  "(address \<Rightarrow> Participant) \<Rightarrow> address list \<Rightarrow> CreditRegistry \<Rightarrow> error + CreditRegistry" where
  "completionLoop ps [] r = Inr r"
| "completionLoop ps (a # rest) r =
     (if Participant.isActive (ps a) \<and> \<not> isInDefault (ps a)
      then (case recordCircleCompletion r a of
              Inl e \<Rightarrow> Inl e
            | Inr r' \<Rightarrow> completionLoop ps rest r')
      else completionLoop ps rest r)"

definition completeCircle :: "World \<Rightarrow> error + World" where
  "completeCircle w =
     (let c = (circle w)\<lparr>status := COMPLETED\<rparr> in
      rbind (completionLoop (participants c) (participantList c) (registry w)) (\<lambda>r.
        Inr (w\<lparr>circle := c, registry := r\<rparr>)))"

fun excessLoop ::
  "nat \<Rightarrow> address list \<Rightarrow> (address \<Rightarrow> Participant) \<Rightarrow> error + (address \<Rightarrow> Participant)" where
  "excessLoop perParticipant [] ps = Inr ps"
| "excessLoop perParticipant (a # rest) ps =
     (if Participant.isActive (ps a) \<and> \<not> isInDefault (ps a)
      then (case checked_add (withdrawableBalance (ps a)) perParticipant of
              Inl e \<Rightarrow> Inl e
            | Inr b \<Rightarrow> excessLoop perParticipant rest (ps(a := (ps a)\<lparr>withdrawableBalance := b\<rparr>)))
      else excessLoop perParticipant rest ps)"

definition distributeExcess :: "nat \<Rightarrow> LendingCircle \<Rightarrow> error + LendingCircle" where
  "distributeExcess month c =
     (let activeCount = getActiveParticipantCount c in
      if activeCount = 0 then Inr c
      else
        rbind (checked_sub 100 (reservePercentage c)) (\<lambda>pct.
        rbind (checked_mul (monthlyContribution c) pct) (\<lambda>prod.
        let expectedPoolPerParticipant = prod div 100 in
        rbind (checked_mul expectedPoolPerParticipant activeCount) (\<lambda>expectedTotalPool.
          if poolBalance c > expectedTotalPool then
            rbind (checked_sub (poolBalance c) expectedTotalPool) (\<lambda>excess.
            let perParticipant = excess div activeCount in
            rbind (excessLoop perParticipant (participantList c) (participants c)) (\<lambda>ps.
            rbind (checked_sub (poolBalance c) excess) (\<lambda>pb.
              Inr (c\<lparr>participants := ps, poolBalance := pb\<rparr>))))
          else Inr c))))"

text \<open>The \<open>receive()\<close> function of the circle.\<close>

definition LendingCircle_receive :: "nat \<Rightarrow> LendingCircle \<Rightarrow> error + LendingCircle" where
  "LendingCircle_receive amount c =
     rbind (checked_add (poolBalance c) amount) (\<lambda>pb. Inr (c\<lparr>poolBalance := pb\<rparr>))"

text \<open>
  A call of \<open>withdraw(amount, recipient)\<close> on the pool whose recipient is the circle: the
  pool's \<open>recipient.call{value: amount}("")\<close> runs the circle's \<open>receive()\<close>, and
  succeeds when that does.
\<close>

definition withdrawToCircle :: "address \<Rightarrow> nat \<Rightarrow> World \<Rightarrow> error + World" where
  "withdrawToCircle sender amount w =
     (let received = LendingCircle_receive amount (circle w) in
      rbind (withdraw sender amount (circleAddress w) (\<not> isl received) (reserve w)) (\<lambda>p.
      rbind received (\<lambda>c.
        Inr (w\<lparr>reserve := p, circle := c,
               sent := sent w @ [(reservePool (circle w), circleAddress w, amount)]\<rparr>))))"

section \<open>LendingCircle: constructor and external functions\<close>

definition LendingCircle_constructor ::
  "address \<Rightarrow> address \<Rightarrow> nat \<Rightarrow> nat \<Rightarrow> nat \<Rightarrow> nat \<Rightarrow> nat \<Rightarrow> ExcessDistributionMethod \<Rightarrow>
   address \<Rightarrow> address \<Rightarrow> CreditRegistry \<Rightarrow> ReservePool \<Rightarrow> error + World" where
  "LendingCircle_constructor self creator0 monthlyContribution0 durationInMonths0
       minParticipants0 maxParticipants0 reservePercentage0 method0
       creditRegistry0 reservePool0 reg pool =
     (if creator0 = 0 then Inl (Revert ''LendingCircle: Invalid creator'')
      else if \<not> monthlyContribution0 > 0
      then Inl (Revert ''LendingCircle: Contribution must be greater than 0'')
      else if \<not> durationInMonths0 > 0
      then Inl (Revert ''LendingCircle: Duration must be greater than 0'')
      else if \<not> minParticipants0 \<ge> 2
      then Inl (Revert ''LendingCircle: Minimum 2 participants required'')
      else if \<not> maxParticipants0 \<ge> minParticipants0
      then Inl (Revert ''LendingCircle: Max must be >= min'')
      else if \<not> reservePercentage0 \<le> 100
      then Inl (Revert ''LendingCircle: Reserve percentage must be <= 100'')
      else if creditRegistry0 = 0 then Inl (Revert ''LendingCircle: Invalid credit registry'')
      else if reservePool0 = 0 then Inl (Revert ''LendingCircle: Invalid reserve pool'')
      else
        let creatorCredit = getCreditScore reg creator0 in
        rbind (checked_mul creatorCredit MAX_CONTRIBUTION_PER_CREDIT) (\<lambda>lim1.
        if \<not> monthlyContribution0 \<le> lim1
        then Inl (Revert ''LendingCircle: Contribution exceeds credit limit'')
        else
        rbind (checked_mul creatorCredit MAX_PARTICIPANTS_PER_CREDIT) (\<lambda>lim2.
        if \<not> maxParticipants0 \<le> lim2
        then Inl (Revert ''LendingCircle: Max participants exceeds credit limit'')
        else
        rbind (checked_mul monthlyContribution0 maxParticipants0) (\<lambda>x.
        rbind (checked_mul x durationInMonths0) (\<lambda>exposure.
        rbind (checked_mul creatorCredit MAX_EXPOSURE_PER_CREDIT) (\<lambda>lim3.
        if \<not> exposure \<le> lim3
        then Inl (Revert ''LendingCircle: Total exposure exceeds credit limit'')
        else
        rbind (recordCircleJoin reg creator0) (\<lambda>reg'.
          Inr \<lparr>registry = reg', reserve = pool,
               circle = \<lparr>creator = creator0, coordinator = creator0,
                 monthlyContribution = monthlyContribution0,
                 durationInMonths = durationInMonths0,
                 minParticipants = minParticipants0, maxParticipants = maxParticipants0,
                 reservePercentage = reservePercentage0, excessDistributionMethod = method0,
                 status = PENDING, currentMonth = 0, totalParticipants = 1, poolBalance = 0,
                 totalReserveDeposited = 0, creditRegistry = creditRegistry0,
                 reservePool = reservePool0,
                 participants = (\<lambda>_. zeroParticipant)
                   (creator0 := zeroParticipant\<lparr>participant := creator0,
                                                Participant.isActive := True\<rparr>),
                 participantList = [creator0], payoutProposals = (\<lambda>_. zeroProposal),
                 votingPeriod = 7 * 86400, locked = False\<rparr>,
               circleAddress = self, sent = []\<rparr>)))))))"

definition requestToJoin :: "Env \<Rightarrow> World \<Rightarrow> error + World" where
  "requestToJoin env w =
     (let c = circle w; sender = msg_sender env in
      if status c \<noteq> PENDING
      then Inl (Revert ''LendingCircle: Circle not accepting new members'')
      else if \<not> totalParticipants c < maxParticipants c
      then Inl (Revert ''LendingCircle: Circle is full'')
      else if Participant.isActive (participants c sender)
      then Inl (Revert ''LendingCircle: Already a participant'')
      else if sender = creator c
      then Inl (Revert ''LendingCircle: Creator is already a participant'')
      else
        rbind (checked_add (totalParticipants c) 1) (\<lambda>n.
        rbind (recordCircleJoin (registry w) sender) (\<lambda>r.
          Inr (w\<lparr>circle := c\<lparr>participants := (participants c)
                              (sender := (participants c sender)\<lparr>participant := sender\<rparr>),
                            participantList := participantList c @ [sender],
                            totalParticipants := n\<rparr>,
                 registry := r\<rparr>))))"

definition approveParticipant :: "Env \<Rightarrow> address \<Rightarrow> World \<Rightarrow> error + World" where
  "approveParticipant env who w =
     onlyCoordinator env w
       (let c = circle w in
        if status c \<noteq> PENDING
        then Inl (Revert ''LendingCircle: Circle not in pending status'')
        else if participant (participants c who) \<noteq> who
        then Inl (Revert ''LendingCircle: Participant not found'')
        else if Participant.isActive (participants c who)
        then Inl (Revert ''LendingCircle: Already approved'')
        else
          let c1 = c\<lparr>participants := (participants c)
                       (who := (participants c who)\<lparr>Participant.isActive := True\<rparr>)\<rparr>
          in if totalParticipants c1 \<ge> minParticipants c1
             then rbind (activateCircle c1) (\<lambda>c2. Inr (w\<lparr>circle := c2\<rparr>))
             else Inr (w\<lparr>circle := c1\<rparr>))"

text \<open>
  The removal loop of \<open>rejectParticipant\<close>: the first entry equal to the address is
  overwritten by the last entry, the array is shortened by one, and the loop stops.
\<close>

function rejectLoop :: "address list \<Rightarrow> address \<Rightarrow> nat \<Rightarrow> address list" where
  "rejectLoop xs who i =
     (if i < length xs
      then (if xs ! i = who then butlast (xs[i := xs ! (length xs - 1)])
            else rejectLoop xs who (i + 1))
      else xs)"
  by pat_completeness auto
termination
  by (relation "measure (\<lambda>(xs, who, i). length xs - i)") auto

declare rejectLoop.simps [simp del]

text \<open>
  \<open>delete participants[participant]\<close> resets the members of the struct that are not
  mappings; the two nested mappings keep their entries.
\<close>

definition rejectParticipant :: "Env \<Rightarrow> address \<Rightarrow> World \<Rightarrow> error + World" where
  "rejectParticipant env who w =
     onlyCoordinator env w
       (let c = circle w in
        if status c \<noteq> PENDING
        then Inl (Revert ''LendingCircle: Circle not in pending status'')
        else if participant (participants c who) \<noteq> who
        then Inl (Revert ''LendingCircle: Participant not found'')
        else if Participant.isActive (participants c who)
        then Inl (Revert ''LendingCircle: Cannot reject active participant'')
        else
          rbind (checked_sub (totalParticipants c) 1) (\<lambda>n.
            Inr (w\<lparr>circle := c\<lparr>participantList := rejectLoop (participantList c) who 0,
                              totalParticipants := n,
                              participants := (participants c)
                                (who := (participants c who)\<lparr>participant := 0,
                                   Participant.isActive := False, hasReceivedPayout := False,
                                   isInDefault := False, withdrawableBalance := 0\<rparr>)\<rparr>\<rparr>)))"

definition makeContribution :: "Env \<Rightarrow> nat \<Rightarrow> World \<Rightarrow> error + World" where
  "makeContribution env month w =
     onlyActiveParticipant env w (onlyActiveCircle w
       (let c = circle w; sender = msg_sender env; me = participants c sender in
        if month \<noteq> currentMonth c then Inl (Revert ''LendingCircle: Invalid month'')
        else if monthlyPayments me month
        then Inl (Revert ''LendingCircle: Already paid for this month'')
        else
          rbind (if excessDistributionMethod c = AUTO_DEDUCT \<and> withdrawableBalance me > 0
                 then (let excessBalance = withdrawableBalance me in
                       if excessBalance \<ge> monthlyContribution c
                       then rbind (checked_sub excessBalance (monthlyContribution c))
                              (\<lambda>b. Inr (0, b))
                       else rbind (checked_sub (monthlyContribution c) excessBalance)
                              (\<lambda>amount. Inr (amount, 0)))
                 else Inr (monthlyContribution c, withdrawableBalance me))
            (\<lambda>(contributionAmount, balance).
          if msg_value env \<noteq> contributionAmount
          then Inl (Revert ''LendingCircle: Incorrect contribution amount'')
          else
            let me1 = me\<lparr>withdrawableBalance := balance,
                         monthlyPayments := (monthlyPayments me)(month := True),
                         paymentTimestamp := (paymentTimestamp me)
                                               (month := block_timestamp env)\<rparr>
            in
            rbind (checked_mul (msg_value env) (reservePercentage c)) (\<lambda>x.
            let reserveAmount = x div 100 in
            rbind (checked_sub (msg_value env) reserveAmount) (\<lambda>poolAmount.
            rbind (checked_add (poolBalance c) poolAmount) (\<lambda>pb.
            rbind (checked_add (totalReserveDeposited c) reserveAmount) (\<lambda>trd.
            rbind (if reserveAmount > 0
                   then (case ReservePool_receive (circleAddress w) reserveAmount (reserve w) of
                           Inl _ \<Rightarrow> Inl (Revert ''LendingCircle: Reserve deposit failed'')
                         | Inr p \<Rightarrow> Inr (p, [(circleAddress w, reservePool c, reserveAmount)]))
                   else Inr (reserve w, []))
              (\<lambda>(p, transfer).
            rbind (recordOnTimePayment (registry w) sender) (\<lambda>r.
              Inr (w\<lparr>circle := c\<lparr>participants := (participants c)(sender := me1),
                                poolBalance := pb, totalReserveDeposited := trd\<rparr>,
                     reserve := p, registry := r, sent := sent w @ transfer\<rparr>))))))))))"

definition proposePayout :: "Env \<Rightarrow> address \<Rightarrow> nat \<Rightarrow> World \<Rightarrow> error + World" where
  "proposePayout env cd month w =
     onlyActiveParticipant env w (onlyActiveCircle w
       (let c = circle w in
        if month \<noteq> currentMonth c
        then Inl (Revert ''LendingCircle: Can only propose for current month'')
        else if \<not> Participant.isActive (participants c cd)
        then Inl (Revert ''LendingCircle: Candidate must be active'')
        else if hasReceivedPayout (participants c cd)
        then Inl (Revert ''LendingCircle: Candidate already received payout'')
        else if isInDefault (participants c cd)
        then Inl (Revert ''LendingCircle: Candidate is in default'')
        else
          rbind (if endTime (payoutProposals c month) = 0
                 then rbind (checked_add (block_timestamp env) (votingPeriod c)) (\<lambda>t.
                        Inr ((payoutProposals c month)\<lparr>endTime := t, executed := False\<rparr>))
                 else Inr (payoutProposals c month)) (\<lambda>proposal.
          if \<not> block_timestamp env < endTime proposal
          then Inl (Revert ''LendingCircle: Voting period ended'')
          else if Candidate.isActive (candidates proposal cd)
          then Inl (Revert ''LendingCircle: Candidate already proposed'')
          else
            Inr (w\<lparr>circle := c\<lparr>payoutProposals := (payoutProposals c)
                   (month := proposal\<lparr>candidates := (candidates proposal)
                        (cd := \<lparr>Candidate.candidate = cd, proposer = msg_sender env,
                                totalVotes = 0, Candidate.isActive = True\<rparr>),
                      candidateList := candidateList proposal @ [cd]\<rparr>)\<rparr>\<rparr>))))"

definition vote :: "Env \<Rightarrow> nat \<Rightarrow> address \<Rightarrow> World \<Rightarrow> error + World" where
  "vote env month cd w =
     onlyActiveParticipant env w (onlyActiveCircle w
       (let c = circle w; proposal = payoutProposals c month; sender = msg_sender env in
        if \<not> endTime proposal > 0
        then Inl (Revert ''LendingCircle: No proposal exists for this month'')
        else if \<not> block_timestamp env < endTime proposal
        then Inl (Revert ''LendingCircle: Voting period ended'')
        else if hasVoted (votes proposal sender)
        then Inl (Revert ''LendingCircle: Already voted'')
        else if \<not> Candidate.isActive (candidates proposal cd)
        then Inl (Revert ''LendingCircle: Invalid candidate'')
        else
          let voteWeight = getCreditScore (registry w) sender in
          if \<not> voteWeight > 0 then Inl (Revert ''LendingCircle: Invalid vote weight'')
          else
            rbind (checked_add (totalVotes (candidates proposal cd)) voteWeight) (\<lambda>tv.
              Inr (w\<lparr>circle := c\<lparr>payoutProposals := (payoutProposals c)
                     (month := proposal\<lparr>votes := (votes proposal)
                          (sender := \<lparr>voter = sender, Vote.candidate = cd,
                                      weight = voteWeight, hasVoted = True\<rparr>),
                        voters := voters proposal @ [sender],
                        candidates := (candidates proposal)
                          (cd := (candidates proposal cd)\<lparr>totalVotes := tv\<rparr>)\<rparr>)\<rparr>\<rparr>))))"

text \<open>
  \<open>executePayout\<close>. The call \<open>reservePool.withdraw(shortfall, address(this))\<close> is
  \<open>withdrawToCircle\<close> with the circle as caller; the statement
  \<open>poolBalance += shortfall\<close> that follows it in the source is kept as it is written.
\<close>

definition executePayout :: "Env \<Rightarrow> nat \<Rightarrow> World \<Rightarrow> error + World" where
  "executePayout env month =
     nonReentrant (\<lambda>w. onlyActiveCircle w
       (let c = circle w; proposal = payoutProposals c month in
        if \<not> endTime proposal > 0 then Inl (Revert ''LendingCircle: No proposal exists'')
        else if \<not> block_timestamp env \<ge> endTime proposal
        then Inl (Revert ''LendingCircle: Voting period not ended'')
        else if executed proposal
        then Inl (Revert ''LendingCircle: Payout already executed'')
        else if month \<noteq> currentMonth c
        then Inl (Revert ''LendingCircle: Can only execute for current month'')
        else
          let recipient = selectWinner (registry w) c month in
          if recipient = 0 then Inl (Revert ''LendingCircle: No valid winner'')
          else if \<not> Participant.isActive (participants c recipient)
          then Inl (Revert ''LendingCircle: Recipient must be active'')
          else if hasReceivedPayout (participants c recipient)
          then Inl (Revert ''LendingCircle: Recipient already received payout'')
          else if isInDefault (participants c recipient)
          then Inl (Revert ''LendingCircle: Recipient is in default'')
          else
            let activeCount = getActiveParticipantCount c in
            rbind (checked_sub 100 (reservePercentage c)) (\<lambda>pct.
            rbind (checked_mul (monthlyContribution c) pct) (\<lambda>prod.
            let expectedPoolPerParticipant = prod div 100 in
            rbind (checked_mul expectedPoolPerParticipant activeCount) (\<lambda>expectedPool.
            let payoutAmount = expectedPool in
            rbind (if poolBalance c < payoutAmount
                   then rbind (checked_sub payoutAmount (poolBalance c)) (\<lambda>shortfall.
                        rbind (withdrawToCircle (circleAddress w) shortfall w) (\<lambda>w'.
                        rbind (checked_add (poolBalance (circle w')) shortfall) (\<lambda>pb.
                          Inr (w'\<lparr>circle := (circle w')\<lparr>poolBalance := pb\<rparr>\<rparr>))))
                   else Inr w) (\<lambda>w1.
            let c1 = circle w1 in
            if \<not> poolBalance c1 \<ge> payoutAmount
            then Inl (Revert ''LendingCircle: Insufficient funds for payout'')
            else
              rbind (checked_sub (poolBalance c1) payoutAmount) (\<lambda>pb.
              let c2 = c1\<lparr>participants := (participants c1)
                           (recipient := (participants c1 recipient)\<lparr>hasReceivedPayout := True\<rparr>),
                         poolBalance := pb,
                         payoutProposals := (payoutProposals c1)
                           (month := (payoutProposals c1 month)\<lparr>executed := True,
                                                                 winner := recipient\<rparr>)\<rparr>
              in
              if \<not> call_success env then Inl (Revert ''LendingCircle: Payout transfer failed'')
              else
                rbind (recordOnTimePayment (registry w1) recipient) (\<lambda>r.
                rbind (distributeExcess month c2) (\<lambda>c3.
                rbind (checked_add (currentMonth c3) 1) (\<lambda>next.
                let w2 = w1\<lparr>registry := r, circle := c3\<lparr>currentMonth := next\<rparr>,
                            sent := sent w1 @ [(circleAddress w1, recipient, payoutAmount)]\<rparr>
                in if next \<ge> durationInMonths c3 then completeCircle w2 else Inr w2))))))))))"

definition LendingCircle_recordLatePayment ::
  "Env \<Rightarrow> address \<Rightarrow> nat \<Rightarrow> World \<Rightarrow> error + World" where
  "LendingCircle_recordLatePayment env who month w =
     onlyCoordinator env w (onlyActiveCircle w
       (let c = circle w in
        if \<not> Participant.isActive (participants c who)
        then Inl (Revert ''LendingCircle: Participant not found'')
        else if monthlyPayments (participants c who) month
        then Inl (Revert ''LendingCircle: Payment already recorded'')
        else
          rbind (recordLatePayment (registry w) who) (\<lambda>r.
            Inr (w\<lparr>circle := c\<lparr>participants := (participants c)
                     (who := (participants c who)
                        \<lparr>monthlyPayments := (monthlyPayments (participants c who))
                                               (month := True)\<rparr>)\<rparr>,
                   registry := r\<rparr>))))"

definition LendingCircle_recordDefault ::
  "Env \<Rightarrow> address \<Rightarrow> nat \<Rightarrow> World \<Rightarrow> error + World" where
  "LendingCircle_recordDefault env who month w =
     onlyCoordinator env w (onlyActiveCircle w
       (let c = circle w in
        if \<not> Participant.isActive (participants c who)
        then Inl (Revert ''LendingCircle: Participant not found'')
        else
          rbind (recordDefault (registry w) who) (\<lambda>r.
            Inr (w\<lparr>circle := c\<lparr>participants := (participants c)
                     (who := (participants c who)\<lparr>isInDefault := True\<rparr>)\<rparr>,
                   registry := r\<rparr>))))"

definition withdrawExcess :: "Env \<Rightarrow> World \<Rightarrow> error + World" where
  "withdrawExcess env w =
     onlyActiveParticipant env w
       (let c = circle w; sender = msg_sender env; me = participants c sender in
        if excessDistributionMethod c \<noteq> WITHDRAWABLE
        then Inl (Revert ''LendingCircle: Excess not withdrawable'')
        else if \<not> withdrawableBalance me > 0
        then Inl (Revert ''LendingCircle: No balance to withdraw'')
        else
          let amount = withdrawableBalance me in
          if \<not> call_success env then Inl (Revert ''LendingCircle: Withdrawal failed'')
          else Inr (w\<lparr>circle := c\<lparr>participants := (participants c)
                          (sender := me\<lparr>withdrawableBalance := 0\<rparr>)\<rparr>,
                      sent := sent w @ [(circleAddress w, sender, amount)]\<rparr>))"

section \<open>Transactions\<close>

text \<open>
  Every transaction an account can send to the three contracts. \<open>SendValue\<close> is a plain
  transfer to the circle (its \<open>receive()\<close>). Only \<open>makeContribution\<close>, the two
  \<open>receive()\<close> functions and the pool's \<open>deposit\<close> are payable; any other call with value
  attached is rejected before its body runs. A transaction that aborts changes nothing.
\<close>

datatype op =
    RequestToJoin
  | ApproveParticipant address
  | RejectParticipant address
  | MakeContribution nat
  | ProposePayout address nat
  | CastVote nat address
  | ExecutePayout nat
  | RecordLatePayment address nat
  | RecordDefault address nat
  | WithdrawExcess
  | SendValue
  | Ledger ledger_op
  | Pool pool_op

definition nonPayable :: "Env \<Rightarrow> error + World \<Rightarrow> error + World" where
  "nonPayable env body = (if msg_value env \<noteq> 0 then Inl (Revert []) else body)"

fun call :: "Env \<Rightarrow> op \<Rightarrow> World \<Rightarrow> error + World" where
  "call env RequestToJoin w = nonPayable env (requestToJoin env w)"
| "call env (ApproveParticipant who) w = nonPayable env (approveParticipant env who w)"
| "call env (RejectParticipant who) w = nonPayable env (rejectParticipant env who w)"
| "call env (MakeContribution month) w = makeContribution env month w"
| "call env (ProposePayout cd month) w = nonPayable env (proposePayout env cd month w)"
| "call env (CastVote month cd) w = nonPayable env (vote env month cd w)"
| "call env (ExecutePayout month) w = nonPayable env (executePayout env month w)"
| "call env (RecordLatePayment who month) w =
     nonPayable env (LendingCircle_recordLatePayment env who month w)"
| "call env (RecordDefault who month) w =
     nonPayable env (LendingCircle_recordDefault env who month w)"
| "call env WithdrawExcess w = nonPayable env (withdrawExcess env w)"
| "call env SendValue w =
     rbind (LendingCircle_receive (msg_value env) (circle w)) (\<lambda>c. Inr (w\<lparr>circle := c\<rparr>))"
| "call env (Ledger lop) w =
     nonPayable env (rbind (ledger_call lop (registry w)) (\<lambda>r. Inr (w\<lparr>registry := r\<rparr>)))"
| "call env (Pool (Withdraw amount recipient)) w =
     nonPayable env
       (if recipient = circleAddress w then withdrawToCircle (msg_sender env) amount w
        else rbind (withdraw (msg_sender env) amount recipient (call_success env) (reserve w))
               (\<lambda>p. Inr (w\<lparr>reserve := p,
                            sent := sent w @ [(reservePool (circle w), recipient, amount)]\<rparr>)))"
| "call env (Pool pop) w =
     rbind (pool_call env pop (reserve w)) (\<lambda>p. Inr (w\<lparr>reserve := p\<rparr>))"

definition transact :: "Env \<times> op \<Rightarrow> World \<Rightarrow> World" where
  "transact t w = (case call (fst t) (snd t) w of Inl _ \<Rightarrow> w | Inr w' \<Rightarrow> w')"

fun run :: "(Env \<times> op) list \<Rightarrow> World \<Rightarrow> World" where
  "run [] w = w"
| "run (t # ts) w = run ts (transact t w)"



section \<open>Notions used to state the properties\<close>

text \<open>
  A candidate of a month's proposal is eligible when the three tests at the head of the
  loop of \<open>_selectWinner\<close> let it through. \<open>rank\<close> is the pair the loop compares,
  \<open>beats\<close> is the comparison it makes.
\<close>

definition eligible :: "LendingCircle \<Rightarrow> nat \<Rightarrow> address \<Rightarrow> bool" where
  "eligible c month cd =
     (Candidate.isActive (candidates (payoutProposals c month) cd) \<and>
      \<not> hasReceivedPayout (participants c cd) \<and> \<not> isInDefault (participants c cd))"

definition rank :: "CreditRegistry \<Rightarrow> LendingCircle \<Rightarrow> nat \<Rightarrow> address \<Rightarrow> nat \<times> nat" where
  "rank r c month cd = (totalVotes (candidates (payoutProposals c month) cd), getCreditScore r cd)"

definition beats :: "nat \<times> nat \<Rightarrow> nat \<times> nat \<Rightarrow> bool" where
  "beats x y = (fst x > fst y \<or> (fst x = fst y \<and> snd x > snd y))"

text \<open>
  \<open>first_best r c month xs w\<close>: \<open>w\<close> is an eligible entry of the list \<open>xs\<close>, every
  eligible entry before it has a strictly smaller rank, and no eligible entry after it has a
  strictly greater rank. So \<open>w\<close> has the most votes, among those the highest credit score,
  and among those it is the earliest in the list.
\<close>

definition first_best ::
  "CreditRegistry \<Rightarrow> LendingCircle \<Rightarrow> nat \<Rightarrow> address list \<Rightarrow> address \<Rightarrow> bool" where
  "first_best r c month xs w =
     (\<exists>pre post. xs = pre @ w # post \<and> eligible c month w \<and>
        (\<forall>x \<in> set pre. eligible c month x \<longrightarrow> beats (rank r c month w) (rank r c month x)) \<and>
        (\<forall>x \<in> set post. eligible c month x \<longrightarrow> \<not> beats (rank r c month x) (rank r c month w)))"

text \<open>
  The amount \<open>executePayout\<close> pays: the share of one contribution that goes to the pool,
  times the value of \<open>_getActiveParticipantCount\<close>.
\<close>

definition expectedPool :: "LendingCircle \<Rightarrow> nat" where
  "expectedPool c =
     monthlyContribution c * (100 - reservePercentage c) div 100 * getActiveParticipantCount c"

text \<open>
  A participant record counts for \<open>_getActiveParticipantCount\<close> and receives a share in
  \<open>_distributeExcess\<close> when it is active and not in default.
\<close>

definition inGoodStanding :: "Participant \<Rightarrow> bool" where
  "inGoodStanding p = (Participant.isActive p \<and> \<not> isInDefault p)"

text \<open>
  The pool balance right after \<open>executePayout\<close> has deducted the payout, whether the
  balance found is an excess in the sense of \<open>_distributeExcess\<close>, and the share each
  entry of \<open>participantList\<close> in good standing then receives.
\<close>

definition remainingPool :: "LendingCircle \<Rightarrow> nat" where
  "remainingPool c =
     (if poolBalance c < expectedPool c then expectedPool c - poolBalance c
      else poolBalance c - expectedPool c)"

definition hasExcess :: "LendingCircle \<Rightarrow> bool" where
  "hasExcess c = (getActiveParticipantCount c \<noteq> 0 \<and> remainingPool c > expectedPool c)"

definition perParticipant :: "LendingCircle \<Rightarrow> nat" where
  "perParticipant c = (remainingPool c - expectedPool c) div getActiveParticipantCount c"

text \<open>
  The body of \<open>executePayout\<close> in two parts, named for the proofs: the block that pulls
  the shortfall from the reserve pool, and everything after it. \<open>lockedWorld\<close> is the
  state in which the body runs, with the reentrancy flag set.
\<close>

definition fundPayout :: "World \<Rightarrow> nat \<Rightarrow> error + World" where
  "fundPayout w payoutAmount =
     (if poolBalance (circle w) < payoutAmount
      then rbind (checked_sub payoutAmount (poolBalance (circle w))) (\<lambda>shortfall.
           rbind (withdrawToCircle (circleAddress w) shortfall w) (\<lambda>w'.
           rbind (checked_add (poolBalance (circle w')) shortfall) (\<lambda>pb.
             Inr (w'\<lparr>circle := (circle w')\<lparr>poolBalance := pb\<rparr>\<rparr>))))
      else Inr w)"

definition settlePayout :: "Env \<Rightarrow> nat \<Rightarrow> address \<Rightarrow> nat \<Rightarrow> World \<Rightarrow> error + World" where
  "settlePayout env month recipient payoutAmount w1 =
     (let c1 = circle w1 in
      if \<not> poolBalance c1 \<ge> payoutAmount
      then Inl (Revert ''LendingCircle: Insufficient funds for payout'')
      else
        rbind (checked_sub (poolBalance c1) payoutAmount) (\<lambda>pb.
        let c2 = c1\<lparr>participants := (participants c1)
                     (recipient := (participants c1 recipient)\<lparr>hasReceivedPayout := True\<rparr>),
                   poolBalance := pb,
                   payoutProposals := (payoutProposals c1)
                     (month := (payoutProposals c1 month)\<lparr>executed := True,
                                                           winner := recipient\<rparr>)\<rparr>
        in
        if \<not> call_success env then Inl (Revert ''LendingCircle: Payout transfer failed'')
        else
          rbind (recordOnTimePayment (registry w1) recipient) (\<lambda>r.
          rbind (distributeExcess month c2) (\<lambda>c3.
          rbind (checked_add (currentMonth c3) 1) (\<lambda>next.
          let w2 = w1\<lparr>registry := r, circle := c3\<lparr>currentMonth := next\<rparr>,
                      sent := sent w1 @ [(circleAddress w1, recipient, payoutAmount)]\<rparr>
          in if next \<ge> durationInMonths c3 then completeCircle w2 else Inr w2)))))"

definition lockedWorld :: "World \<Rightarrow> World" where
  "lockedWorld w = w\<lparr>circle := (circle w)\<lparr>locked := True\<rparr>\<rparr>"

text \<open>
  Concrete transactions and worlds, used to run the model and to instantiate the theorems.
  \<open>plainCall sender time\<close> is a call without value whose outgoing transfer, if any,
  succeeds. \<open>demo_deploy\<close> constructs a circle at address 100 for creator 1 with a
  monthly contribution of 100, six months, two to six participants, no reserve share and
  withdrawable excess, on a fresh registry and a fresh pool.
\<close>

definition plainCall :: "address \<Rightarrow> nat \<Rightarrow> Env" where
  "plainCall sender time =
     \<lparr>msg_sender = sender, msg_value = 0, block_timestamp = time, call_success = True\<rparr>"

definition demo_deploy :: "error + World" where
  "demo_deploy = LendingCircle_constructor 100 1 100 6 2 6 0 WITHDRAWABLE 200 300
     CreditRegistry_deployed (ReservePool_constructor 50)"

text \<open>
  Account 2 joins and is approved, which activates the circle; the creator proposes 2 for
  month 0; three default recordings sent directly to the registry bring the score of 2 to 0.
\<close>

definition stuck_trace :: "(Env \<times> op) list" where
  "stuck_trace =
     [(plainCall 2 10, RequestToJoin),
      (plainCall 1 20, ApproveParticipant 2),
      (plainCall 1 1000, ProposePayout 2 0),
      (plainCall 7 2000, Ledger (DefaultOn 2)),
      (plainCall 7 2001, Ledger (DefaultOn 2)),
      (plainCall 7 2002, Ledger (DefaultOn 2))]"

definition stuck_world :: World where
  "stuck_world = run stuck_trace (projr demo_deploy)"

text \<open>The vote total of a candidate in a month's proposal.\<close>

definition votesFor :: "LendingCircle \<Rightarrow> nat \<Rightarrow> address \<Rightarrow> nat" where
  "votesFor c month cd = totalVotes (candidates (payoutProposals c month) cd)"

text \<open>
  An active circle whose proposal for month 0 lists the candidates 5 and 6 in the given
  order with the given vote totals, and a registry in which 5 has score 400 and 6 has 500.
\<close>

definition tie_circle :: "address list \<Rightarrow> nat \<Rightarrow> nat \<Rightarrow> LendingCircle" where
  "tie_circle order votesA votesB =
     (circle (projr demo_deploy))
       \<lparr>status := ACTIVE,
        participants := (\<lambda>a. zeroParticipant\<lparr>participant := a, Participant.isActive := True\<rparr>),
        participantList := [1, 5, 6],
        payoutProposals := (\<lambda>_. zeroProposal)
          (0 := zeroProposal\<lparr>endTime := 5000, candidateList := order,
                 candidates := (\<lambda>_. zeroCandidate)
                   (5 := \<lparr>Candidate.candidate = 5, proposer = 1, totalVotes = votesA,
                          Candidate.isActive = True\<rparr>,
                    6 := \<lparr>Candidate.candidate = 6, proposer = 1, totalVotes = votesB,
                          Candidate.isActive = True\<rparr>)\<rparr>)\<rparr>"

definition tie_registry :: CreditRegistry where
  "tie_registry =
     \<lparr>creditProfiles = (\<lambda>_. zeroProfile)
        (5 := zeroProfile\<lparr>creditScore := 400\<rparr>, 6 := zeroProfile\<lparr>creditScore := 500\<rparr>),
      hasProfile = (\<lambda>_. False)(5 := True, 6 := True)\<rparr>"

text \<open>
  Account 2 joins and is approved, both participants contribute for month 0, the creator
  proposes 2 and votes for 2.
\<close>

definition paid_trace :: "(Env \<times> op) list" where
  "paid_trace =
     [(plainCall 2 10, RequestToJoin),
      (plainCall 1 20, ApproveParticipant 2),
      ((plainCall 1 30)\<lparr>msg_value := 100\<rparr>, MakeContribution 0),
      ((plainCall 2 40)\<lparr>msg_value := 100\<rparr>, MakeContribution 0),
      (plainCall 1 1000, ProposePayout 2 0),
      (plainCall 1 1500, CastVote 0 2)]"

definition paid_world :: World where
  "paid_world = run paid_trace (projr demo_deploy)"

text \<open>
  A circle like \<open>demo_deploy\<close> whose contributions give 10 percent to the reserve. Account
  2 joins and is approved, the pool's factory verifies the circle, only the creator
  contributes for month 0, and 2 is proposed: the pool holds 90 and the reserve 10, while the
  payout due is 180. In \<open>funded_world\<close> a second verified circle, 77, has deposited 500
  into the reserve before.
\<close>

definition reserve_deploy :: "error + World" where
  "reserve_deploy = LendingCircle_constructor 100 1 100 6 2 6 10 WITHDRAWABLE 200 300
     CreditRegistry_deployed (ReservePool_constructor 50)"

definition short_trace :: "(Env \<times> op) list" where
  "short_trace =
     [(plainCall 2 10, RequestToJoin),
      (plainCall 1 20, ApproveParticipant 2),
      (plainCall 50 25, Pool (VerifyCircle 100)),
      ((plainCall 1 30)\<lparr>msg_value := 100\<rparr>, MakeContribution 0),
      (plainCall 1 1000, ProposePayout 2 0)]"

definition short_world :: World where
  "short_world = run short_trace (projr reserve_deploy)"

definition funded_world :: World where
  "funded_world =
     run [(plainCall 50 1100, Pool (VerifyCircle 77)),
          ((plainCall 77 1200)\<lparr>msg_value := 500\<rparr>, Pool Deposit)] short_world"

text \<open>
  Account 2 joins and is approved, somebody sends 403 to the circle, and 2 is proposed for
  month 0: the pool holds 403 while the payout due is 200.
\<close>

definition excess_trace :: "(Env \<times> op) list" where
  "excess_trace =
     [(plainCall 2 10, RequestToJoin),
      (plainCall 1 20, ApproveParticipant 2),
      ((plainCall 9 30)\<lparr>msg_value := 403\<rparr>, SendValue),
      (plainCall 1 1000, ProposePayout 2 0)]"

definition excess_world :: World where
  "excess_world = run excess_trace (projr demo_deploy)"

definition excess_circle :: LendingCircle where
  "excess_circle = (circle excess_world)\<lparr>poolBalance := 203\<rparr>"

text \<open>
  The scenario of the activation claim: a circle for creator 1 with a monthly contribution of
  1, three to six participants; the accounts 2 and 3 request to join.
\<close>

definition trio_deploy :: "error + World" where
  "trio_deploy = LendingCircle_constructor 100 1 1 6 3 6 10 WITHDRAWABLE 200 300
     CreditRegistry_deployed (ReservePool_constructor 50)"

definition trio_world :: World where
  "trio_world =
     run [(plainCall 2 10, RequestToJoin), (plainCall 3 11, RequestToJoin)] (projr trio_deploy)"

text \<open>Account 2 requests to join the circle of \<open>demo_deploy\<close>, still pending.\<close>

definition joined_world :: World where
  "joined_world = run [(plainCall 2 10, RequestToJoin)] (projr demo_deploy)"

text \<open>
  The worlds that can arise: a circle constructed on a registry and a pool that have some
  history of their own, followed by any sequence of transactions.
\<close>

definition reachable :: "World \<Rightarrow> bool" where
  "reachable w =
     (\<exists>self cr mc dur minP maxP rp m ra pa ops f ts w0 trace.
        LendingCircle_constructor self cr mc dur minP maxP rp m ra pa
          (ledger_run ops CreditRegistry_deployed) (pool_run ts (ReservePool_constructor f)) = Inr w0 \<and>
        w = run trace w0)"

section \<open>Checked arithmetic and sequencing\<close>


lemma checked_add_Inr [simp]: "(checked_add a b = Inr c) = (c = a + b \<and> a + b \<le> MAX_UINT256)"
  by (auto simp: checked_add_def)

lemma checked_sub_Inr [simp]: "(checked_sub a b = Inr c) = (c = a - b \<and> b \<le> a)"
  by (auto simp: checked_sub_def)

lemma checked_mul_Inr [simp]: "(checked_mul a b = Inr c) = (c = a * b \<and> a * b \<le> MAX_UINT256)"
  by (auto simp: checked_mul_def)

lemma rbind_Inr [simp]: "(rbind m f = Inr y) = (\<exists>x. m = Inr x \<and> f x = Inr y)"
  by (cases m) (auto simp: rbind_def)

lemma rbind_simps [simp]: "rbind (Inl e) f = Inl e" "rbind (Inr x) f = f x"
  by (simp_all add: rbind_def)



lemma getCreditScore_ensure: "getCreditScore (ensureProfile r a) a = getCreditScore r a"
  by (simp add: getCreditScore_def ensureProfile_def)

lemma stored_ensure: "creditScore (creditProfiles (ensureProfile r a) a) = getCreditScore r a"
  by (simp add: getCreditScore_def ensureProfile_def)














section \<open>ReservePool: accounting\<close>

lemma isl_rbind: "isl (rbind m f) = (isl m \<or> (\<exists>x. m = Inr x \<and> isl (f x)))"
  by (cases m) (simp_all add: rbind_def)










section \<open>LendingCircle: winner selection and payout\<close>

lemma beats_trans: "beats x y \<Longrightarrow> beats y z \<Longrightarrow> beats x z"
  by (auto simp: beats_def)

lemma beats_not_trans: "beats x y \<Longrightarrow> \<not> beats z y \<Longrightarrow> beats x z"
  by (auto simp: beats_def)

lemma selectLoop_step:
  "selectLoop r c month (cd # rest) (b, bv, bc) =
     (if eligible c month cd \<and> beats (rank r c month cd) (bv, bc)
      then selectLoop r c month rest (cd, rank r c month cd)
      else selectLoop r c month rest (b, bv, bc))"
  by (auto simp: eligible_def rank_def beats_def Let_def)

lemma selectLoop_result:
  "selectLoop r c month xs (b, bv, bc) = res \<Longrightarrow>
     (res = (b, bv, bc) \<and> (\<forall>x \<in> set xs. eligible c month x \<longrightarrow> \<not> beats (rank r c month x) (bv, bc))) \<or>
     (snd res = rank r c month (fst res) \<and> beats (snd res) (bv, bc) \<and>
      first_best r c month xs (fst res))"
proof (induction xs arbitrary: b bv bc)
  case Nil
  then show ?case by simp
next
  case (Cons cd rest)
  show ?case
  proof (cases "eligible c month cd \<and> beats (rank r c month cd) (bv, bc)")
    case True
    then have el: "eligible c month cd" and bt: "beats (rank r c month cd) (bv, bc)" by simp_all
    obtain v k where rk: "rank r c month cd = (v, k)" by (cases "rank r c month cd")
    from Cons.prems True have "selectLoop r c month rest (cd, v, k) = res"
      by (simp add: selectLoop_step rk del: selectLoop.simps)
    from Cons.IH[OF this]
    consider (same) "res = (cd, v, k)"
        "\<forall>x \<in> set rest. eligible c month x \<longrightarrow> \<not> beats (rank r c month x) (v, k)"
      | (later) "snd res = rank r c month (fst res)" "beats (snd res) (v, k)"
        "first_best r c month rest (fst res)"
      by blast
    then show ?thesis
    proof cases
      case same
      have "first_best r c month (cd # rest) cd"
        unfolding first_best_def using same(2) el rk
        by (intro exI[of _ "[]"] exI[of _ rest]) simp
      then show ?thesis using same(1) rk bt by simp
    next
      case later
      from later(3) obtain pre post where d: "rest = pre @ fst res # post"
        "eligible c month (fst res)"
        "\<forall>x \<in> set pre. eligible c month x \<longrightarrow> beats (rank r c month (fst res)) (rank r c month x)"
        "\<forall>x \<in> set post. eligible c month x \<longrightarrow> \<not> beats (rank r c month x) (rank r c month (fst res))"
        unfolding first_best_def by blast
      have "beats (rank r c month (fst res)) (rank r c month cd)"
        using later(1,2) rk by simp
      then have "first_best r c month (cd # rest) (fst res)"
        unfolding first_best_def using d
        by (intro exI[of _ "cd # pre"] exI[of _ post]) simp
      moreover have "beats (snd res) (bv, bc)"
        using later(2) bt rk beats_trans by metis
      ultimately show ?thesis using later(1) by simp
    qed
  next
    case False
    from Cons.prems False have "selectLoop r c month rest (b, bv, bc) = res"
      by (simp add: selectLoop_step del: selectLoop.simps)
    from Cons.IH[OF this]
    consider (same) "res = (b, bv, bc)"
        "\<forall>x \<in> set rest. eligible c month x \<longrightarrow> \<not> beats (rank r c month x) (bv, bc)"
      | (later) "snd res = rank r c month (fst res)" "beats (snd res) (bv, bc)"
        "first_best r c month rest (fst res)"
      by blast
    then show ?thesis
    proof cases
      case same
      then show ?thesis using False by auto
    next
      case later
      from later(3) obtain pre post where d: "rest = pre @ fst res # post"
        "eligible c month (fst res)"
        "\<forall>x \<in> set pre. eligible c month x \<longrightarrow> beats (rank r c month (fst res)) (rank r c month x)"
        "\<forall>x \<in> set post. eligible c month x \<longrightarrow> \<not> beats (rank r c month x) (rank r c month (fst res))"
        unfolding first_best_def by blast
      have "eligible c month cd \<longrightarrow> beats (rank r c month (fst res)) (rank r c month cd)"
        using later(1,2) False beats_not_trans by metis
      then have "first_best r c month (cd # rest) (fst res)"
        unfolding first_best_def using d
        by (intro exI[of _ "cd # pre"] exI[of _ post]) simp
      then show ?thesis using later(1,2) by simp
    qed
  qed
qed

lemma first_best_member:
  "first_best r c month xs w \<Longrightarrow> w \<in> set xs \<and> eligible c month w"
  unfolding first_best_def by (metis in_set_conv_decomp)

lemma beats_zero: "beats x (0, 0) = (0 < fst x \<or> 0 < snd x)"
  by (auto simp: beats_def)


lemma selectWinner_none:
  assumes "\<forall>x \<in> set (candidateList (payoutProposals c month)).
             eligible c month x \<longrightarrow> \<not> beats (rank r c month x) (0, 0)"
  shows "selectWinner r c month = 0"
proof -
  let ?xs = "candidateList (payoutProposals c month)"
  let ?res = "selectLoop r c month ?xs (0, 0, 0)"
  from selectLoop_result[OF refl, of r c month ?xs 0 0 0]
  consider "?res = (0, 0, 0)" | "beats (snd ?res) (0, 0)" "first_best r c month ?xs (fst ?res)"
      "snd ?res = rank r c month (fst ?res)"
    by blast
  then show ?thesis
  proof cases
    case 1
    then show ?thesis by (simp add: selectWinner_def)
  next
    case 2
    from first_best_member[OF 2(2)]
    have "fst ?res \<in> set ?xs" "eligible c month (fst ?res)" by simp_all
    with assms 2(1,3) show ?thesis by auto
  qed
qed

lemma eligible_cong:
  "payoutProposals c' month = payoutProposals c month \<Longrightarrow> participants c' = participants c \<Longrightarrow>
   eligible c' month = eligible c month"
  by (simp add: eligible_def fun_eq_iff)

lemma rank_cong:
  "payoutProposals c' month = payoutProposals c month \<Longrightarrow> rank r c' month = rank r c month"
  by (simp add: rank_def fun_eq_iff)

lemma selectLoop_cong:
  assumes "payoutProposals c' month = payoutProposals c month" "participants c' = participants c"
  shows "selectLoop r c' month xs acc = selectLoop r c month xs acc"
proof (induction xs arbitrary: acc)
  case Nil
  show ?case by simp
next
  case (Cons cd rest)
  obtain b bv bc where acc: "acc = (b, bv, bc)" by (cases acc)
  show ?case
    unfolding acc selectLoop_step eligible_cong[OF assms] rank_cong[OF assms(1)]
    by (simp add: Cons.IH)
qed

lemma selectWinner_cong:
  assumes "payoutProposals c' month = payoutProposals c month" "participants c' = participants c"
  shows "selectWinner r c' month = selectWinner r c month"
  unfolding selectWinner_def selectLoop_cong[OF assms] assms(1) by (rule refl)

lemma selectWinner_locked [simp]:
  "selectWinner r (c\<lparr>locked := b\<rparr>) month = selectWinner r c month"
  by (rule selectWinner_cong) simp_all

lemma activeCount_locked [simp]:
  "getActiveParticipantCount (c\<lparr>locked := b\<rparr>) = getActiveParticipantCount c"
  by (simp add: getActiveParticipantCount_def)

lemma withdrawToCircle_Inr:
  assumes "withdrawToCircle sender amount w = Inr w'"
  shows "w' = w\<lparr>reserve := (reserve w)\<lparr>currentBalance := currentBalance (reserve w) - amount,
                                     totalWithdrawn := totalWithdrawn (reserve w) + amount\<rparr>,
               circle := (circle w)\<lparr>poolBalance := poolBalance (circle w) + amount\<rparr>,
               sent := sent w @ [(reservePool (circle w), circleAddress w, amount)]\<rparr>"
    and "verifiedCircles (reserve w) sender" and "0 < amount"
    and "amount \<le> currentBalance (reserve w)" and "circleAddress w \<noteq> 0"
  using assms
  by (auto simp: withdrawToCircle_def withdraw_def LendingCircle_receive_def Let_def
      split: if_splits)

lemma expectedPool_locked [simp]: "expectedPool (c\<lparr>locked := b\<rparr>) = expectedPool c"
  by (simp add: expectedPool_def)

lemma completeCircle_Inr:
  "completeCircle w = Inr w' \<Longrightarrow>
     \<exists>r. completionLoop (participants (circle w)) (participantList (circle w)) (registry w) = Inr r \<and>
         w' = w\<lparr>circle := (circle w)\<lparr>status := COMPLETED\<rparr>, registry := r\<rparr>"
  by (auto simp: completeCircle_def Let_def)

lemma distributeExcess_Inr:
  assumes "distributeExcess month c = Inr c'"
  shows "if getActiveParticipantCount c = 0 \<or> poolBalance c \<le> expectedPool c then c' = c
         else (\<exists>ps. excessLoop ((poolBalance c - expectedPool c) div getActiveParticipantCount c)
                  (participantList c) (participants c) = Inr ps \<and>
                c' = c\<lparr>participants := ps, poolBalance := expectedPool c\<rparr>)"
  using assms
  by (auto simp: distributeExcess_def expectedPool_def Let_def split: if_splits)

lemma executePayout_guards:
  assumes ok: "executePayout env month w = Inr w'"
  shows "\<not> locked (circle w) \<and> status (circle w) = ACTIVE \<and> month = currentMonth (circle w) \<and>
         0 < endTime (payoutProposals (circle w) month) \<and>
         endTime (payoutProposals (circle w) month) \<le> block_timestamp env \<and>
         \<not> executed (payoutProposals (circle w) month) \<and>
         selectWinner (registry w) (circle w) month \<noteq> 0 \<and>
         Participant.isActive (participants (circle w) (selectWinner (registry w) (circle w) month)) \<and>
         \<not> hasReceivedPayout (participants (circle w) (selectWinner (registry w) (circle w) month)) \<and>
         \<not> isInDefault (participants (circle w) (selectWinner (registry w) (circle w) month)) \<and>
         reservePercentage (circle w) \<le> 100 \<and> expectedPool (circle w) \<le> MAX_UINT256 \<and>
         call_success env"
  using ok
  by (simp add: executePayout_def nonReentrant_def onlyActiveCircle_def Let_def
        expectedPool_def split: if_splits)

lemma executePayout_staged:
  "executePayout env month =
     nonReentrant (\<lambda>w. onlyActiveCircle w
       (let c = circle w; proposal = payoutProposals c month in
        if \<not> endTime proposal > 0 then Inl (Revert ''LendingCircle: No proposal exists'')
        else if \<not> block_timestamp env \<ge> endTime proposal
        then Inl (Revert ''LendingCircle: Voting period not ended'')
        else if executed proposal
        then Inl (Revert ''LendingCircle: Payout already executed'')
        else if month \<noteq> currentMonth c
        then Inl (Revert ''LendingCircle: Can only execute for current month'')
        else
          let recipient = selectWinner (registry w) c month in
          if recipient = 0 then Inl (Revert ''LendingCircle: No valid winner'')
          else if \<not> Participant.isActive (participants c recipient)
          then Inl (Revert ''LendingCircle: Recipient must be active'')
          else if hasReceivedPayout (participants c recipient)
          then Inl (Revert ''LendingCircle: Recipient already received payout'')
          else if isInDefault (participants c recipient)
          then Inl (Revert ''LendingCircle: Recipient is in default'')
          else
            let activeCount = getActiveParticipantCount c in
            rbind (checked_sub 100 (reservePercentage c)) (\<lambda>pct.
            rbind (checked_mul (monthlyContribution c) pct) (\<lambda>prod.
            let expectedPoolPerParticipant = prod div 100 in
            rbind (checked_mul expectedPoolPerParticipant activeCount) (\<lambda>expectedPool.
            rbind (fundPayout w expectedPool) (settlePayout env month recipient expectedPool))))))"
  unfolding executePayout_def fundPayout_def settlePayout_def Let_def by (rule refl)

lemma executePayout_stages:
  assumes ok: "executePayout env month w = Inr w'"
  shows "\<exists>w1 w2. fundPayout (lockedWorld w) (expectedPool (circle w)) = Inr w1 \<and>
           settlePayout env month (selectWinner (registry w) (circle w) month)
             (expectedPool (circle w)) w1 = Inr w2 \<and>
           w' = w2\<lparr>circle := (circle w2)\<lparr>locked := False\<rparr>\<rparr>"
  using ok
  by (simp add: executePayout_staged nonReentrant_def onlyActiveCircle_def Let_def
      lockedWorld_def expectedPool_def split: if_splits) blast

lemma withdrawToCircle_InrD:
  "withdrawToCircle sender amount w = Inr w' \<Longrightarrow>
     w' = w\<lparr>reserve := (reserve w)\<lparr>currentBalance := currentBalance (reserve w) - amount,
                                     totalWithdrawn := totalWithdrawn (reserve w) + amount\<rparr>,
               circle := (circle w)\<lparr>poolBalance := poolBalance (circle w) + amount\<rparr>,
               sent := sent w @ [(reservePool (circle w), circleAddress w, amount)]\<rparr> \<and>
     verifiedCircles (reserve w) sender \<and> 0 < amount \<and>
     amount \<le> currentBalance (reserve w) \<and> circleAddress w \<noteq> 0"
  using withdrawToCircle_Inr[of sender amount w w'] by blast

lemma fundPayout_Inr:
  assumes "fundPayout w P = Inr w1"
  shows "w1 = (if poolBalance (circle w) < P
               then w\<lparr>reserve := (reserve w)
                         \<lparr>currentBalance := currentBalance (reserve w) - (P - poolBalance (circle w)),
                          totalWithdrawn := totalWithdrawn (reserve w) + (P - poolBalance (circle w))\<rparr>,
                      circle := (circle w)\<lparr>poolBalance := P + (P - poolBalance (circle w))\<rparr>,
                      sent := sent w @ [(reservePool (circle w), circleAddress w,
                                         P - poolBalance (circle w))]\<rparr>
               else w)"
    and "poolBalance (circle w) < P \<Longrightarrow>
           verifiedCircles (reserve w) (circleAddress w) \<and>
           P - poolBalance (circle w) \<le> currentBalance (reserve w) \<and> circleAddress w \<noteq> 0"
  using assms
  by (auto simp: fundPayout_def split: if_splits dest!: withdrawToCircle_InrD)

lemma activeCountLoop_filter:
  "activeCountLoop ps xs n = n + length (filter (\<lambda>a. inGoodStanding (ps a)) xs)"
  by (induction xs arbitrary: n) (simp_all add: inGoodStanding_def)

lemma getActiveParticipantCount_filter:
  "getActiveParticipantCount c =
     length (filter (\<lambda>a. inGoodStanding (participants c a)) (participantList c))"
  by (simp add: getActiveParticipantCount_def activeCountLoop_filter)

lemma excessLoop_result:
  "excessLoop per xs ps = Inr ps' \<Longrightarrow>
     ps' a = (if inGoodStanding (ps a)
              then (ps a)\<lparr>withdrawableBalance := withdrawableBalance (ps a) + per * count_list xs a\<rparr>
              else ps a)"
proof (induction xs arbitrary: ps)
  case Nil
  then show ?case by simp
next
  case (Cons x xs)
  show ?case
  proof (cases "inGoodStanding (ps x)")
    case True
    let ?ps1 = "ps(x := (ps x)\<lparr>withdrawableBalance := withdrawableBalance (ps x) + per\<rparr>)"
    from Cons.prems True have "excessLoop per xs ?ps1 = Inr ps'"
      by (auto simp: inGoodStanding_def checked_add_def split: if_splits sum.splits)
    from Cons.IH[OF this] show ?thesis
      using True by (auto simp: inGoodStanding_def)
  next
    case False
    with Cons.prems have "excessLoop per xs ps = Inr ps'"
      by (auto simp: inGoodStanding_def)
    from Cons.IH[OF this] show ?thesis using False by auto
  qed
qed

lemma settlePayout_Inr:
  assumes "settlePayout env month rcp P w1 = Inr w2"
  shows "P \<le> poolBalance (circle w1) \<and> call_success env \<and>
         (\<exists>r c3. recordOnTimePayment (registry w1) rcp = Inr r \<and>
            distributeExcess month
              ((circle w1)\<lparr>participants := (participants (circle w1))
                    (rcp := (participants (circle w1) rcp)\<lparr>hasReceivedPayout := True\<rparr>),
                  poolBalance := poolBalance (circle w1) - P,
                  payoutProposals := (payoutProposals (circle w1))
                    (month := (payoutProposals (circle w1) month)\<lparr>executed := True,
                                                                   winner := rcp\<rparr>)\<rparr>) = Inr c3 \<and>
            (let w3 = w1\<lparr>registry := r, circle := c3\<lparr>currentMonth := currentMonth c3 + 1\<rparr>,
                         sent := sent w1 @ [(circleAddress w1, rcp, P)]\<rparr>
             in if durationInMonths c3 \<le> currentMonth c3 + 1
                then completeCircle w3 = Inr w2 else w2 = w3))"
  using assms
  by (auto simp: settlePayout_def Let_def split: if_splits)

lemma count_cong:
  assumes "participantList c' = participantList c"
    and "\<And>a. inGoodStanding (participants c' a) = inGoodStanding (participants c a)"
  shows "getActiveParticipantCount c' = getActiveParticipantCount c"
  unfolding getActiveParticipantCount_filter assms by (rule refl)

lemma expectedPool_cong:
  assumes "participantList c' = participantList c"
    and "\<And>a. inGoodStanding (participants c' a) = inGoodStanding (participants c a)"
    and "monthlyContribution c' = monthlyContribution c"
    and "reservePercentage c' = reservePercentage c"
  shows "expectedPool c' = expectedPool c"
  unfolding expectedPool_def count_cong[OF assms(1,2)] assms(3,4) by (rule refl)

lemma executePayout_post:
  assumes ok: "executePayout env month w = Inr w'"
  defines "c \<equiv> circle w"
  defines "win \<equiv> selectWinner (registry w) (circle w) month"
  defines "short \<equiv> poolBalance (circle w) < expectedPool (circle w)"
  shows "sent w' = sent w @
           (if short then [(reservePool c, circleAddress w, expectedPool c - poolBalance c)]
            else []) @ [(circleAddress w, win, expectedPool c)]"
    and "reserve w' =
           (if short
            then (reserve w)\<lparr>currentBalance := currentBalance (reserve w) -
                                   (expectedPool c - poolBalance c),
                              totalWithdrawn := totalWithdrawn (reserve w) +
                                   (expectedPool c - poolBalance c)\<rparr>
            else reserve w)"
    and "payoutProposals (circle w') =
           (payoutProposals c)(month := (payoutProposals c month)\<lparr>executed := True, winner := win\<rparr>)"
    and "poolBalance (circle w') = (if hasExcess c then expectedPool c else remainingPool c)"
    and "participants (circle w') a =
           (participants c a)
             \<lparr>hasReceivedPayout := (a = win \<or> hasReceivedPayout (participants c a)),
              withdrawableBalance := withdrawableBalance (participants c a) +
                 (if hasExcess c \<and> inGoodStanding (participants c a)
                  then perParticipant c * count_list (participantList c) a else 0)\<rparr>"
    and "participantList (circle w') = participantList c"
    and "circleAddress w' = circleAddress w"
proof -
  let ?T = "expectedPool c"
  from executePayout_stages[OF ok] obtain w1 w2 where
    f: "fundPayout (lockedWorld w) ?T = Inr w1" and
    s: "settlePayout env month win ?T w1 = Inr w2" and
    w': "w' = w2\<lparr>circle := (circle w2)\<lparr>locked := False\<rparr>\<rparr>"
    unfolding c_def win_def by blast
  have w1: "w1 = (if short
               then w\<lparr>reserve := (reserve w)
                         \<lparr>currentBalance := currentBalance (reserve w) - (?T - poolBalance c),
                          totalWithdrawn := totalWithdrawn (reserve w) + (?T - poolBalance c)\<rparr>,
                      circle := c\<lparr>locked := True, poolBalance := ?T + (?T - poolBalance c)\<rparr>,
                      sent := sent w @ [(reservePool c, circleAddress w, ?T - poolBalance c)]\<rparr>
               else w\<lparr>circle := c\<lparr>locked := True\<rparr>\<rparr>)"
    using fundPayout_Inr(1)[OF f] unfolding short_def c_def
    by (simp add: lockedWorld_def)
  define cm where "cm = (circle w1)\<lparr>participants := (participants (circle w1))
                    (win := (participants (circle w1) win)\<lparr>hasReceivedPayout := True\<rparr>),
                  poolBalance := poolBalance (circle w1) - ?T,
                  payoutProposals := (payoutProposals (circle w1))
                    (month := (payoutProposals (circle w1) month)\<lparr>executed := True,
                                                                   winner := win\<rparr>)\<rparr>"
  from settlePayout_Inr[OF s] obtain r c3 where
    r: "recordOnTimePayment (registry w1) win = Inr r" and
    d: "distributeExcess month cm = Inr c3" and
    fin: "if durationInMonths c3 \<le> currentMonth c3 + 1
          then completeCircle (w1\<lparr>registry := r, circle := c3\<lparr>currentMonth := currentMonth c3 + 1\<rparr>,
                         sent := sent w1 @ [(circleAddress w1, win, ?T)]\<rparr>) = Inr w2
          else w2 = w1\<lparr>registry := r, circle := c3\<lparr>currentMonth := currentMonth c3 + 1\<rparr>,
                         sent := sent w1 @ [(circleAddress w1, win, ?T)]\<rparr>"
    unfolding cm_def Let_def by blast
  have w2: "sent w2 = sent w1 @ [(circleAddress w1, win, ?T)] \<and> reserve w2 = reserve w1 \<and>
            circleAddress w2 = circleAddress w1 \<and>
            participants (circle w2) = participants c3 \<and> poolBalance (circle w2) = poolBalance c3 \<and>
            payoutProposals (circle w2) = payoutProposals c3 \<and>
            participantList (circle w2) = participantList c3"
    using fin by (auto split: if_splits dest!: completeCircle_Inr)
  have cm1: "participantList cm = participantList c"
    and cm2: "\<And>a. inGoodStanding (participants cm a) = inGoodStanding (participants c a)"
    and cm3: "monthlyContribution cm = monthlyContribution c"
    and cm4: "reservePercentage cm = reservePercentage c"
    unfolding cm_def using w1 by (simp_all add: inGoodStanding_def)
  have cmT: "expectedPool cm = ?T" and cmN: "getActiveParticipantCount cm = getActiveParticipantCount c"
    using expectedPool_cong[OF cm1 cm2 cm3 cm4] count_cong[OF cm1 cm2] by simp_all
  show "sent w' = sent w @
           (if short then [(reservePool c, circleAddress w, expectedPool c - poolBalance c)]
            else []) @ [(circleAddress w, win, expectedPool c)]"
    using w' w2 w1 by simp
  show "reserve w' =
           (if short
            then (reserve w)\<lparr>currentBalance := currentBalance (reserve w) -
                                   (expectedPool c - poolBalance c),
                              totalWithdrawn := totalWithdrawn (reserve w) +
                                   (expectedPool c - poolBalance c)\<rparr>
            else reserve w)"
    using w' w2 w1 by simp
  show "circleAddress w' = circleAddress w"
    using w' w2 w1 by simp
  have pbcm: "poolBalance cm = remainingPool c"
    unfolding cm_def remainingPool_def using w1 by (simp add: short_def c_def)
  have pcm: "participants cm =
      (participants c)(win := (participants c win)\<lparr>hasReceivedPayout := True\<rparr>)"
    unfolding cm_def using w1 by simp
  have ppcm: "payoutProposals cm =
      (payoutProposals c)(month := (payoutProposals c month)\<lparr>executed := True, winner := win\<rparr>)"
    unfolding cm_def using w1 by simp
  note dd = distributeExcess_Inr[OF d, unfolded cmT cmN pbcm cm1]
  have c3: "payoutProposals c3 = payoutProposals cm \<and> participantList c3 = participantList c \<and>
            poolBalance c3 = (if hasExcess c then expectedPool c else remainingPool c)"
    using dd cm1 pbcm by (auto simp: hasExcess_def split: if_splits)
  show "payoutProposals (circle w') =
           (payoutProposals c)(month := (payoutProposals c month)\<lparr>executed := True, winner := win\<rparr>)"
    using w' w2 c3 ppcm by simp
  show "poolBalance (circle w') = (if hasExcess c then expectedPool c else remainingPool c)"
    using w' w2 c3 by simp
  show "participantList (circle w') = participantList c"
    using w' w2 c3 by simp
  have "participants c3 a =
           (participants c a)
             \<lparr>hasReceivedPayout := (a = win \<or> hasReceivedPayout (participants c a)),
              withdrawableBalance := withdrawableBalance (participants c a) +
                 (if hasExcess c \<and> inGoodStanding (participants c a)
                  then perParticipant c * count_list (participantList c) a else 0)\<rparr>"
  proof (cases "hasExcess c")
    case False
    then have "c3 = cm" using dd by (auto simp: hasExcess_def split: if_splits)
    then show ?thesis using False pcm by simp
  next
    case True
    then obtain ps where
      ps: "excessLoop ((remainingPool c - expectedPool c) div getActiveParticipantCount c)
             (participantList c) (participants cm) = Inr ps"
      and c3': "c3 = cm\<lparr>participants := ps, poolBalance := expectedPool c\<rparr>"
      using dd by (auto simp: hasExcess_def split: if_splits)
    have "participants c3 a = ps a" using c3' by simp
    also note excessLoop_result[OF ps, of a]
    finally show ?thesis
      using True cm2[of a] pcm by (simp add: perParticipant_def)
  qed
  then show "participants (circle w') a =
           (participants c a)
             \<lparr>hasReceivedPayout := (a = win \<or> hasReceivedPayout (participants c a)),
              withdrawableBalance := withdrawableBalance (participants c a) +
                 (if hasExcess c \<and> inGoodStanding (participants c a)
                  then perParticipant c * count_list (participantList c) a else 0)\<rparr>"
    using w' w2 by simp
qed

section \<open>Concrete runs and the selection of the winner\<close>

lemmas eval_defs = plainCall_def demo_deploy_def stuck_trace_def stuck_world_def
  LendingCircle_constructor_def CreditRegistry_deployed_def ReservePool_constructor_def
  zeroProfile_def zeroParticipant_def zeroProposal_def zeroCandidate_def zeroVote_def
  transact_def nonPayable_def requestToJoin_def approveParticipant_def proposePayout_def
  onlyCoordinator_def onlyActiveParticipant_def onlyActiveCircle_def activateCircle_def
  recordCircleJoin_def recordDefault_def ensureProfile_def getCreditScore_def
  checked_add_def checked_sub_def checked_mul_def MAX_UINT256_def
  BASE_CREDIT_SCORE_def MAX_CREDIT_SCORE_def MIN_CREDIT_SCORE_def DEFAULT_PENALTY_def
  MAX_CONTRIBUTION_PER_CREDIT_def MAX_PARTICIPANTS_PER_CREDIT_def MAX_EXPOSURE_PER_CREDIT_def
  Let_def

lemma demo_deploy_ok: "\<not> isl demo_deploy"
  by (simp add: eval_defs)

lemma stuck1: "status (circle stuck_world) = ACTIVE"
  by (simp add: eval_defs)

lemma stuck2: "candidateList (payoutProposals (circle stuck_world) 0) = [2]"
  by (simp add: eval_defs)

lemma stuck3: "getCreditScore (registry stuck_world) 2 = 0"
  by (simp add: eval_defs)

lemma stuck4: "executePayout (plainCall 9 700000) 0 stuck_world = Inl (Revert ''LendingCircle: No valid winner'')"
  by (simp add: eval_defs executePayout_def nonReentrant_def selectWinner_def)





lemmas eval_more = eval_defs paid_trace_def paid_world_def makeContribution_def vote_def
  recordOnTimePayment_def ON_TIME_PAYMENT_BONUS_def ReservePool_receive_def
  executePayout_def nonReentrant_def selectWinner_def getActiveParticipantCount_def
  distributeExcess_def withdrawToCircle_def withdraw_def LendingCircle_receive_def
  completeCircle_def eligible_def votesFor_def rank_def tie_circle_def tie_registry_def



lemma paid3: "poolBalance (circle paid_world) = 200 \<and> status (circle paid_world) = ACTIVE"
  by (simp add: eval_more)


lemma paid5: "winner (payoutProposals (circle (projr (executePayout (plainCall 9 700000) 0 paid_world))) 0) = 2"
  by (simp add: eval_more)






section \<open>The amount paid and the reserve pool\<close>



lemma count_distinct:
  assumes "distinct (participantList c)"
  shows "getActiveParticipantCount c =
         card {a \<in> set (participantList c). inGoodStanding (participants c a)}"
proof -
  have "distinct (filter (\<lambda>a. inGoodStanding (participants c a)) (participantList c))"
    using assms by simp
  from distinct_card[OF this] show ?thesis
    by (simp add: getActiveParticipantCount_filter)
qed

lemma transact_failed: "isl (call (fst t) (snd t) w) \<Longrightarrow> transact t w = w"
  by (cases "call (fst t) (snd t) w") (simp_all add: transact_def)


lemmas eval_reserve = eval_more reserve_deploy_def short_trace_def short_world_def
  funded_world_def verifyCircle_def deposit_def inGoodStanding_def expectedPool_def








section \<open>Distribution of the excess\<close>

lemma count_list_distinct:
  "distinct xs \<Longrightarrow> count_list xs a = (if a \<in> set xs then 1 else 0)"
  by (induction xs) auto

lemma distributeExcess_shares:
  assumes d: "distributeExcess month c = Inr c'"
    and n: "getActiveParticipantCount c \<noteq> 0" and e: "expectedPool c < poolBalance c"
  shows "withdrawableBalance (participants c' a) =
           withdrawableBalance (participants c a) +
           (if inGoodStanding (participants c a)
            then (poolBalance c - expectedPool c) div getActiveParticipantCount c *
                 count_list (participantList c) a
            else 0)"
    and "poolBalance c' = expectedPool c"
proof -
  from distributeExcess_Inr[OF d] n e obtain ps where
    ps: "excessLoop ((poolBalance c - expectedPool c) div getActiveParticipantCount c)
           (participantList c) (participants c) = Inr ps"
    and c': "c' = c\<lparr>participants := ps, poolBalance := expectedPool c\<rparr>"
    by (auto split: if_splits)
  show "poolBalance c' = expectedPool c" using c' by simp
  have "participants c' a = ps a" using c' by simp
  with excessLoop_result[OF ps, of a]
  show "withdrawableBalance (participants c' a) =
           withdrawableBalance (participants c a) +
           (if inGoodStanding (participants c a)
            then (poolBalance c - expectedPool c) div getActiveParticipantCount c *
                 count_list (participantList c) a
            else 0)"
    by simp
qed

text \<open>
  Claim C3, as amended. When \<open>_distributeExcess\<close> finds the pool balance above the
  expected pool amount by E, with N entries of the participant list in good standing (N
  not 0) and no address listed twice, the withdrawable balance of every listed participant
  in good standing grows by exactly the floor of E over N, every other balance is unchanged,
  and \<open>poolBalance\<close> drops by the whole of E: the remainder of the division is
  credited to nobody and does not stay in \<open>poolBalance\<close>. The same holds for every
  successful \<open>executePayout\<close>, where E is the excess of the balance remaining after the
  payout, and N is then the number of listed participants in good standing.
\<close>

theorem excess_distribution:
  "(distributeExcess month c = Inr c' \<and> distinct (participantList c) \<and>
    getActiveParticipantCount c \<noteq> 0 \<and> expectedPool c < poolBalance c \<longrightarrow>
      (\<forall>a. withdrawableBalance (participants c' a) =
            withdrawableBalance (participants c a) +
            (if a \<in> set (participantList c) \<and> inGoodStanding (participants c a)
             then (poolBalance c - expectedPool c) div getActiveParticipantCount c else 0)) \<and>
      poolBalance c' = poolBalance c - (poolBalance c - expectedPool c)) \<and>
   (executePayout env month w = Inr w' \<and> distinct (participantList (circle w)) \<and>
    getActiveParticipantCount (circle w) \<noteq> 0 \<and>
    expectedPool (circle w) < remainingPool (circle w) \<longrightarrow>
      (\<forall>a. withdrawableBalance (participants (circle w') a) =
            withdrawableBalance (participants (circle w) a) +
            (if a \<in> set (participantList (circle w)) \<and> inGoodStanding (participants (circle w) a)
             then (remainingPool (circle w) - expectedPool (circle w)) div
                  getActiveParticipantCount (circle w)
             else 0)) \<and>
      poolBalance (circle w') =
        remainingPool (circle w) - (remainingPool (circle w) - expectedPool (circle w)) \<and>
      getActiveParticipantCount (circle w) =
        card {a \<in> set (participantList (circle w)). inGoodStanding (participants (circle w) a)})"
proof (intro conjI impI allI)
  fix a
  assume h: "distributeExcess month c = Inr c' \<and> distinct (participantList c) \<and>
    getActiveParticipantCount c \<noteq> 0 \<and> expectedPool c < poolBalance c"
  then have d: "distributeExcess month c = Inr c'" and ds: "distinct (participantList c)"
    and n: "getActiveParticipantCount c \<noteq> 0" and e: "expectedPool c < poolBalance c"
    by simp_all
  show "withdrawableBalance (participants c' a) =
            withdrawableBalance (participants c a) +
            (if a \<in> set (participantList c) \<and> inGoodStanding (participants c a)
             then (poolBalance c - expectedPool c) div getActiveParticipantCount c else 0)"
    using distributeExcess_shares(1)[OF d n e, of a] count_list_distinct[OF ds, of a]
    by simp
next
  assume h: "distributeExcess month c = Inr c' \<and> distinct (participantList c) \<and>
    getActiveParticipantCount c \<noteq> 0 \<and> expectedPool c < poolBalance c"
  then have d: "distributeExcess month c = Inr c'"
    and n: "getActiveParticipantCount c \<noteq> 0" and e: "expectedPool c < poolBalance c"
    by simp_all
  show "poolBalance c' = poolBalance c - (poolBalance c - expectedPool c)"
    using distributeExcess_shares(2)[OF d n e] e by simp
next
  fix a
  assume h: "executePayout env month w = Inr w' \<and> distinct (participantList (circle w)) \<and>
    getActiveParticipantCount (circle w) \<noteq> 0 \<and>
    expectedPool (circle w) < remainingPool (circle w)"
  then have ok: "executePayout env month w = Inr w'"
    and ds: "distinct (participantList (circle w))" and x: "hasExcess (circle w)"
    by (simp_all add: hasExcess_def)
  show "withdrawableBalance (participants (circle w') a) =
            withdrawableBalance (participants (circle w) a) +
            (if a \<in> set (participantList (circle w)) \<and> inGoodStanding (participants (circle w) a)
             then (remainingPool (circle w) - expectedPool (circle w)) div
                  getActiveParticipantCount (circle w)
             else 0)"
    using executePayout_post(5)[OF ok, of a] x count_list_distinct[OF ds, of a]
    by (simp add: perParticipant_def)
next
  assume h: "executePayout env month w = Inr w' \<and> distinct (participantList (circle w)) \<and>
    getActiveParticipantCount (circle w) \<noteq> 0 \<and>
    expectedPool (circle w) < remainingPool (circle w)"
  then have ok: "executePayout env month w = Inr w'"
    and ds: "distinct (participantList (circle w))" and x: "hasExcess (circle w)"
    and e: "expectedPool (circle w) < remainingPool (circle w)"
    by (simp_all add: hasExcess_def)
  show "poolBalance (circle w') =
        remainingPool (circle w) - (remainingPool (circle w) - expectedPool (circle w))"
    using executePayout_post(4)[OF ok] x e by simp
  show "getActiveParticipantCount (circle w) =
        card {a \<in> set (participantList (circle w)). inGoodStanding (participants (circle w) a)}"
    using ds by (rule count_distinct)
qed

lemmas eval_excess = eval_reserve excess_trace_def excess_world_def remainingPool_def

lemma excess_facts:
  "poolBalance (circle excess_world) = 403 \<and> expectedPool (circle excess_world) = 200 \<and>
   remainingPool (circle excess_world) = 203 \<and>
   getActiveParticipantCount (circle excess_world) = 2 \<and>
   participantList (circle excess_world) = [1, 2] \<and>
   inGoodStanding (participants (circle excess_world) 1) \<and>
   inGoodStanding (participants (circle excess_world) 2) \<and>
   withdrawableBalance (participants (circle excess_world) 1) = 0 \<and>
   withdrawableBalance (participants (circle excess_world) 2) = 0"
  by (simp add: eval_excess)

lemma excess_ok: "\<not> isl (executePayout (plainCall 9 700000) 0 excess_world)"
  by (simp add: eval_excess numeral_2_eq_2 [symmetric])

lemma excess_after:
  "poolBalance (circle (projr (executePayout (plainCall 9 700000) 0 excess_world))) = 200 \<and>
   withdrawableBalance (participants
     (circle (projr (executePayout (plainCall 9 700000) 0 excess_world))) 1) = 1 \<and>
   withdrawableBalance (participants
     (circle (projr (executePayout (plainCall 9 700000) 0 excess_world))) 2) = 1"
  by (simp add: eval_excess numeral_2_eq_2 [symmetric])


text \<open>The circle of \<open>excess_world\<close> with 203 in the pool, as \<open>_distributeExcess\<close> finds it.\<close>

lemma excess_circle_facts:
  "distinct (participantList excess_circle) \<and> getActiveParticipantCount excess_circle = 2 \<and>
   expectedPool excess_circle = 200 \<and> poolBalance excess_circle = 203 \<and>
   1 \<in> set (participantList excess_circle) \<and> inGoodStanding (participants excess_circle 1) \<and>
   withdrawableBalance (participants excess_circle 1) = 0 \<and>
   \<not> isl (distributeExcess 0 excess_circle)"
  by (simp add: eval_excess excess_circle_def numeral_2_eq_2 [symmetric])

theorem excess_distribution_witness:
  "\<not> isl (distributeExcess 0 excess_circle) \<and> distinct (participantList excess_circle) \<and>
   getActiveParticipantCount excess_circle \<noteq> 0 \<and>
   expectedPool excess_circle < poolBalance excess_circle \<and>
   withdrawableBalance (participants (projr (distributeExcess 0 excess_circle)) 1) = 1 \<and>
   poolBalance (projr (distributeExcess 0 excess_circle)) = 200 \<and>
   \<not> isl (executePayout (plainCall 9 700000) 0 excess_world) \<and>
   distinct (participantList (circle excess_world)) \<and>
   getActiveParticipantCount (circle excess_world) \<noteq> 0 \<and>
   expectedPool (circle excess_world) < remainingPool (circle excess_world) \<and>
   withdrawableBalance (participants
     (circle (projr (executePayout (plainCall 9 700000) 0 excess_world))) 2) = 1 \<and>
   poolBalance (circle (projr (executePayout (plainCall 9 700000) 0 excess_world))) = 200"
proof -
  let ?e = "plainCall 9 700000"
  let ?w' = "projr (executePayout ?e 0 excess_world)"
  let ?c' = "projr (distributeExcess 0 excess_circle)"
  have ok: "executePayout ?e 0 excess_world = Inr ?w'" using excess_ok by simp
  have okc: "distributeExcess 0 excess_circle = Inr ?c'" using excess_circle_facts by simp
  note t = excess_distribution[of 0 excess_circle ?c' ?e excess_world ?w']
  have hc: "distributeExcess 0 excess_circle = Inr ?c' \<and> distinct (participantList excess_circle) \<and>
    getActiveParticipantCount excess_circle \<noteq> 0 \<and>
    expectedPool excess_circle < poolBalance excess_circle"
    using okc excess_circle_facts by simp
  have hw: "executePayout ?e 0 excess_world = Inr ?w' \<and>
    distinct (participantList (circle excess_world)) \<and>
    getActiveParticipantCount (circle excess_world) \<noteq> 0 \<and>
    expectedPool (circle excess_world) < remainingPool (circle excess_world)"
    using ok excess_facts by simp
  from t hc have 1: "withdrawableBalance (participants ?c' 1) =
      withdrawableBalance (participants excess_circle 1) +
      (if 1 \<in> set (participantList excess_circle) \<and> inGoodStanding (participants excess_circle 1)
       then (poolBalance excess_circle - expectedPool excess_circle) div
            getActiveParticipantCount excess_circle else 0)"
    and 2: "poolBalance ?c' =
      poolBalance excess_circle - (poolBalance excess_circle - expectedPool excess_circle)"
    by (blast+)
  from t hw have 3: "withdrawableBalance (participants (circle ?w') 2) =
      withdrawableBalance (participants (circle excess_world) 2) +
      (if 2 \<in> set (participantList (circle excess_world)) \<and>
          inGoodStanding (participants (circle excess_world) 2)
       then (remainingPool (circle excess_world) - expectedPool (circle excess_world)) div
            getActiveParticipantCount (circle excess_world) else 0)"
    and 4: "poolBalance (circle ?w') = remainingPool (circle excess_world) -
      (remainingPool (circle excess_world) - expectedPool (circle excess_world))"
    by (blast+)
  have r1: "withdrawableBalance (participants ?c' 1) = 1"
    using 1 excess_circle_facts by simp
  have r2: "poolBalance ?c' = 200" using 2 excess_circle_facts by simp
  have r3: "withdrawableBalance (participants (circle ?w') 2) = 1"
    using 3 excess_facts by simp
  have r4: "poolBalance (circle ?w') = 200" using 4 excess_facts by simp
  show ?thesis using r1 r2 r3 r4 hc hw excess_ok excess_circle_facts by simp
qed

text \<open>
  The claim as first stated fails: with an excess of 3 over two participants each receives
  1, and the remainder 1 does not stay in \<open>poolBalance\<close>, which ends at 200 and not at 201.
\<close>

theorem excess_distribution_counterexample:
  "\<not> isl (executePayout (plainCall 9 700000) 0 excess_world) \<and>
   remainingPool (circle excess_world) = expectedPool (circle excess_world) + 3 \<and>
   getActiveParticipantCount (circle excess_world) = 2 \<and>
   withdrawableBalance (participants
     (circle (projr (executePayout (plainCall 9 700000) 0 excess_world))) 1) =
     withdrawableBalance (participants (circle excess_world) 1) + 3 div 2 \<and>
   withdrawableBalance (participants
     (circle (projr (executePayout (plainCall 9 700000) 0 excess_world))) 2) =
     withdrawableBalance (participants (circle excess_world) 2) + 3 div 2 \<and>
   poolBalance (circle (projr (executePayout (plainCall 9 700000) 0 excess_world))) \<noteq>
     expectedPool (circle excess_world) + 3 mod 2"
  using excess_ok excess_facts excess_after by simp

section \<open>Admission: joining and activation\<close>








lemmas eval_trio = eval_excess trio_deploy_def trio_world_def joined_world_def







lemma requestToJoin_rejections:
  assumes "status (circle w) \<noteq> PENDING \<or>
           maxParticipants (circle w) \<le> totalParticipants (circle w) \<or>
           Participant.isActive (participants (circle w) (msg_sender env)) \<or>
           msg_sender env = creator (circle w)"
  shows "isl (requestToJoin env w) \<and> transact (env, RequestToJoin) w = w"
proof -
  have "isl (requestToJoin env w)"
    using assms by (auto simp: requestToJoin_def Let_def)
  then have "isl (call env RequestToJoin w)" by (simp add: nonPayable_def)
  then show ?thesis using \<open>isl (requestToJoin env w)\<close>
    by (simp add: transact_failed)
qed

text \<open>
  Claim C5, at the input where the code departs from it. Account 2 has requested to join
  and is pending: it has a participant record and an entry in the list. Its second request
  is accepted all the same, which adds a second entry and counts it a second time.
\<close>

theorem pending_participant_joins_again:
  "participantList (circle joined_world) = [1, 2] \<and>
   participant (participants (circle joined_world) 2) = 2 \<and>
   \<not> Participant.isActive (participants (circle joined_world) 2) \<and>
   totalParticipants (circle joined_world) = 2 \<and>
   \<not> isl (requestToJoin (plainCall 2 15) joined_world) \<and>
   participantList (circle (projr (requestToJoin (plainCall 2 15) joined_world))) = [1, 2, 2] \<and>
   totalParticipants (circle (projr (requestToJoin (plainCall 2 15) joined_world))) = 3"
  by (simp add: eval_trio)

section \<open>A month without a valid winner\<close>

lemma stuck_reachable: "reachable stuck_world"
proof -
  have "LendingCircle_constructor 100 1 100 6 2 6 0 WITHDRAWABLE 200 300
          (ledger_run [] CreditRegistry_deployed) (pool_run [] (ReservePool_constructor 50)) =
        Inr (projr demo_deploy)"
    using demo_deploy_ok unfolding demo_deploy_def by simp
  moreover have "stuck_world = run stuck_trace (projr demo_deploy)"
    by (rule stuck_world_def)
  ultimately show ?thesis unfolding reachable_def by blast
qed

lemma stuck5:
  "eligible (circle stuck_world) 0 2 \<and> Participant.isActive (participants (circle stuck_world) 2) \<and>
   votesFor (circle stuck_world) 0 2 = 0 \<and> \<not> locked (circle stuck_world) \<and>
   endTime (payoutProposals (circle stuck_world) 0) = 605800 \<and>
   \<not> executed (payoutProposals (circle stuck_world) 0) \<and> currentMonth (circle stuck_world) = 0"
  by (simp add: eval_defs eligible_def votesFor_def)

lemma executePayout_no_winner:
  assumes "\<not> locked (circle w)" "status (circle w) = ACTIVE"
    and "0 < endTime (payoutProposals (circle w) month)"
    and "endTime (payoutProposals (circle w) month) \<le> block_timestamp env"
    and "\<not> executed (payoutProposals (circle w) month)" "month = currentMonth (circle w)"
    and "selectWinner (registry w) (circle w) month = 0"
  shows "executePayout env month w = Inl (Revert ''LendingCircle: No valid winner'')"
  using assms
  by (simp add: executePayout_def nonReentrant_def onlyActiveCircle_def Let_def)

text \<open>
  Claim C9. There is a reachable state with a proposed candidate that is active, has not
  received a payout and is not in default, in which \<open>executePayout\<close> fails with the
  no-valid-winner error. In general, whenever every eligible candidate of the month has vote
  total 0 and credit score 0, \<open>_selectWinner\<close> returns the null address and
  \<open>executePayout\<close> fails; when the checks before the selection pass, it fails with the
  no-valid-winner error.
\<close>

theorem no_winner_among_eligible:
  "(\<exists>v env m cd. reachable v \<and> cd \<in> set (candidateList (payoutProposals (circle v) m)) \<and>
       eligible (circle v) m cd \<and> Participant.isActive (participants (circle v) cd) \<and>
       executePayout env m v = Inl (Revert ''LendingCircle: No valid winner'')) \<and>
   ((\<forall>x \<in> set (candidateList (payoutProposals (circle w) month)).
        eligible (circle w) month x \<longrightarrow>
        votesFor (circle w) month x = 0 \<and> getCreditScore (registry w) x = 0) \<longrightarrow>
      selectWinner (registry w) (circle w) month = 0 \<and> isl (executePayout env month w) \<and>
      (\<not> locked (circle w) \<and> status (circle w) = ACTIVE \<and>
       0 < endTime (payoutProposals (circle w) month) \<and>
       endTime (payoutProposals (circle w) month) \<le> block_timestamp env \<and>
       \<not> executed (payoutProposals (circle w) month) \<and> month = currentMonth (circle w) \<longrightarrow>
         executePayout env month w = Inl (Revert ''LendingCircle: No valid winner'')))"
proof (intro conjI impI)
  show "\<exists>v env m cd. reachable v \<and> cd \<in> set (candidateList (payoutProposals (circle v) m)) \<and>
       eligible (circle v) m cd \<and> Participant.isActive (participants (circle v) cd) \<and>
       executePayout env m v = Inl (Revert ''LendingCircle: No valid winner'')"
    using stuck_reachable stuck2 stuck4 stuck5
    by (intro exI[of _ stuck_world] exI[of _ "plainCall 9 700000"] exI[of _ 0] exI[of _ 2]) simp
next
  assume a: "\<forall>x \<in> set (candidateList (payoutProposals (circle w) month)).
        eligible (circle w) month x \<longrightarrow>
        votesFor (circle w) month x = 0 \<and> getCreditScore (registry w) x = 0"
  then show z: "selectWinner (registry w) (circle w) month = 0"
    by (intro selectWinner_none) (auto simp: beats_zero rank_def votesFor_def)
  show "isl (executePayout env month w)"
  proof (cases "executePayout env month w")
    case (Inl e)
    then show ?thesis by simp
  next
    case (Inr w2)
    from executePayout_guards[OF Inr] z show ?thesis by simp
  qed
  show "executePayout env month w = Inl (Revert ''LendingCircle: No valid winner'')"
    if "\<not> locked (circle w) \<and> status (circle w) = ACTIVE \<and>
       0 < endTime (payoutProposals (circle w) month) \<and>
       endTime (payoutProposals (circle w) month) \<le> block_timestamp env \<and>
       \<not> executed (payoutProposals (circle w) month) \<and> month = currentMonth (circle w)"
    using that z by (elim conjE) (rule executePayout_no_winner; assumption)
qed

theorem no_winner_among_eligible_witness:
  "candidateList (payoutProposals (circle stuck_world) 0) = [2] \<and>
   eligible (circle stuck_world) 0 2 \<and> votesFor (circle stuck_world) 0 2 = 0 \<and>
   getCreditScore (registry stuck_world) 2 = 0 \<and>
   selectWinner (registry stuck_world) (circle stuck_world) 0 = 0 \<and>
   isl (executePayout (plainCall 9 700000) 0 stuck_world) \<and>
   \<not> locked (circle stuck_world) \<and> status (circle stuck_world) = ACTIVE \<and>
   0 < endTime (payoutProposals (circle stuck_world) 0) \<and>
   endTime (payoutProposals (circle stuck_world) 0) \<le> block_timestamp (plainCall 9 700000) \<and>
   \<not> executed (payoutProposals (circle stuck_world) 0) \<and>
   0 = currentMonth (circle stuck_world) \<and>
   executePayout (plainCall 9 700000) 0 stuck_world =
     Inl (Revert ''LendingCircle: No valid winner'')"
proof -
  note t = no_winner_among_eligible[of stuck_world 0 "plainCall 9 700000"]
  have h: "\<forall>x \<in> set (candidateList (payoutProposals (circle stuck_world) 0)).
        eligible (circle stuck_world) 0 x \<longrightarrow>
        votesFor (circle stuck_world) 0 x = 0 \<and> getCreditScore (registry stuck_world) x = 0"
    using stuck2 stuck3 stuck5 by simp
  have g: "\<not> locked (circle stuck_world) \<and> status (circle stuck_world) = ACTIVE \<and>
       0 < endTime (payoutProposals (circle stuck_world) 0) \<and>
       endTime (payoutProposals (circle stuck_world) 0) \<le> block_timestamp (plainCall 9 700000) \<and>
       \<not> executed (payoutProposals (circle stuck_world) 0) \<and>
       0 = currentMonth (circle stuck_world)"
    using stuck1 stuck5 by (simp add: plainCall_def)
  from t h g have "selectWinner (registry stuck_world) (circle stuck_world) 0 = 0 \<and>
      isl (executePayout (plainCall 9 700000) 0 stuck_world) \<and>
      executePayout (plainCall 9 700000) 0 stuck_world =
        Inl (Revert ''LendingCircle: No valid winner'')"
    by blast
  with g stuck2 stuck3 stuck5 show ?thesis by simp
qed

end
